theory Spec2Isabelle
  imports Complex_Main "HOL-Library.Monad_Syntax"
begin

section \<open>JavaScript values used by the two sync scripts\<close>

subsection \<open>Strings\<close>

text \<open>
  Addresses and hashes are ASCII strings. \<open>toLowerCase\<close> maps \<open>A\<close>..\<open>Z\<close> to
  \<open>a\<close>..\<open>z\<close>; \<open>toString\<close> is the decimal rendering of a non-negative integer
  (\<open>Number.prototype.toString\<close>, \<open>BigNumber.toString\<close>).
\<close>

definition lower_char :: "char \<Rightarrow> char" where
  "lower_char c =
     (case map_of (zip ''ABCDEFGHIJKLMNOPQRSTUVWXYZ'' ''abcdefghijklmnopqrstuvwxyz'') c of
        Some l \<Rightarrow> l
      | None \<Rightarrow> c)"

definition toLowerCase :: "string \<Rightarrow> string" where
  "toLowerCase s = map lower_char s"

definition digit_char :: "nat \<Rightarrow> char" where
  "digit_char d = ''0123456789'' ! d"

fun toString :: "nat \<Rightarrow> string" where
  "toString n = (if n < 10 then [digit_char n] else toString (n div 10) @ [digit_char (n mod 10)])"

declare toString.simps [simp del]

text \<open>\<open>x || null\<close> on an optional string: \<open>undefined\<close> and the empty string are falsy.\<close>

definition falsy :: "string option \<Rightarrow> bool" where
  "falsy x = (case x of None \<Rightarrow> True | Some s \<Rightarrow> s = [])"

definition or_null :: "string option \<Rightarrow> string option" where
  "or_null x = (if falsy x then None else x)"

subsection \<open>Numbers\<close>

text \<open>
  A JavaScript number is an IEEE-754 double. An integer of magnitude up to \<open>2^53\<close> is
  represented exactly; above, only multiples of a power of two are, and the result of an
  addition is rounded to the nearest representable value, ties to the even significand.
  \<open>js_number\<close> is that rounding on integers (magnitudes beyond the largest finite double
  are not modelled: the additions below add 5000 or 1 to a finite double and cannot reach
  them). Block bounds are held in such numbers and enter the scan loop directly as arguments,
  so their additions are modelled with the rounding. Loop counters that start at 0 and grow
  by a fixed step per iteration (\<open>providerIndex\<close>, the batch index, the retry count) stay
  far below \<open>2^53\<close> and are natural numbers.
\<close>

function ulp_exponent :: "nat \<Rightarrow> nat" where
  "ulp_exponent a = (if a < 2 ^ 53 then 0 else Suc (ulp_exponent (a div 2)))"
  by pat_completeness auto
termination
  by (relation "measure id") auto

declare ulp_exponent.simps [simp del]

definition js_number :: "int \<Rightarrow> int" where
  "js_number n =
     (let a = nat \<bar>n\<bar>;
          e = ulp_exponent a;
          q = a div 2 ^ e;
          r = a mod 2 ^ e;
          q' = (if 2 * r > 2 ^ e \<or> (2 * r = 2 ^ e \<and> odd q) then q + 1 else q)
      in sgn n * int (q' * 2 ^ e))"

definition js_add :: "int \<Rightarrow> int \<Rightarrow> int" where
  "js_add a b = js_number (a + b)"

section \<open>Configuration shared by the scripts\<close>

text \<open>
  \<open>process.env\<close>: a variable is \<open>None\<close> when unset. \<open>FROM_BLOCK_var\<close> holds the
  integer that \<open>parseInt\<close> read from the variable when it is set to a decimal integer
  (a value that does not parse to a number is not modelled); \<open>FROM_BLOCK\<close> is 0 when the
  variable is unset.
\<close>

record process_env =
  BACKEND_URL :: "string option"
  NFT_CONTRACT_ADDRESS :: "string option"
  SEAPORT_CONTRACT_ADDRESS :: "string option"
  FROM_BLOCK_var :: "int option"
  APECHAIN_RPC :: "string option"
  SUPABASE_URL :: "string option"
  SUPABASE_SERVICE_ROLE_KEY :: "string option"

definition FROM_BLOCK :: "process_env \<Rightarrow> int" where
  "FROM_BLOCK env = (case FROM_BLOCK_var env of None \<Rightarrow> 0 | Some n \<Rightarrow> n)"

definition RPC_LIST :: "process_env \<Rightarrow> string option list" where
  "RPC_LIST env =
     [APECHAIN_RPC env,
      Some ''https://rpc.apechain.com/http'',
      Some ''https://apechain.drpc.org'',
      Some ''https://33139.rpc.thirdweb.com'']"

section \<open>syncSeaportOrders.js\<close>

subsection \<open>Logs, payloads and the world the script acts on\<close>

datatype event_kind = OrderValidated | OrderFulfilled | OrderCancelled

record item =
  token :: string
  party :: string
  "identifier" :: nat
  startAmount :: nat
  endAmount :: nat

record order_args =
  arg_orderHash :: "string option"
  arg_offerer :: "string option"
  arg_fulfiller :: "string option"
  arg_offer :: "item list option"
  arg_consideration :: "item list option"

record log_entry =
  args :: "order_args option"
  blockNumber :: int

record payload =
  tokenId :: "string option"
  price :: "string option"
  sellerAddress :: "string option"
  buyerAddress :: "string option"
  seaportOrder :: "string option \<times> order_args option"
  orderHash :: "string option"
  image :: "string option"
  nftContract :: "string option"
  marketplaceContract :: "string option"
  status :: string
  onChainBlock :: int

datatype post_result = Accepted | Rejected nat | Failed string

datatype line =
    MissingEnv
  | SyncStarted
  | RpcWorking string
  | RpcFailed string string
  | NoRpc
  | BlockRange int int
  | ChunkScan int int
  | ChunkError string
  | RetryWarn nat string
  | BackendRejected nat
  | BackendError string
  | SyncFinished nat nat nat
  | Fatal string

text \<open>
  The chain and the backend answer each request as they please: the answer to a request
  depends on how many requests were made before it, so that a retry of the same query can
  succeed where the first attempt failed.
\<close>

record chain_env =
  getBlockNumber :: "nat \<Rightarrow> string \<Rightarrow> string + int"
  queryFilter :: "nat \<Rightarrow> string \<Rightarrow> event_kind \<Rightarrow> int \<Rightarrow> int \<Rightarrow> string + log_entry list"
  backend :: "nat \<Rightarrow> payload \<Rightarrow> post_result"

text \<open>
  The state of the process and its effects so far: the endpoint of the module-level
  \<open>provider\<close> and the endpoint \<open>seaportContract\<close> is bound to, the number of requests
  sent to the chain, the log queries among them (event, first and last block, in the order
  they were sent), the delays waited through \<open>setTimeout\<close> in milliseconds, the payloads
  sent to the backend, the console, and the three counters.
\<close>

record world =
  provider :: "string option"
  seaportContract :: "string option"
  requests :: nat
  queries :: "(event_kind \<times> int \<times> int) list"
  sleeps :: "nat list"
  posted :: "payload list"
  console :: "line list"
  totalActive :: nat
  totalFulfilled :: nat
  totalCancelled :: nat

definition world0 :: world where
  "world0 = \<lparr>provider = None, seaportContract = None, requests = 0, queries = [], sleeps = [],
     posted = [], console = [], totalActive = 0, totalFulfilled = 0, totalCancelled = 0\<rparr>"

definition say :: "line \<Rightarrow> world \<Rightarrow> world" where
  "say l w = w\<lparr>console := console w @ [l]\<rparr>"

subsection \<open>initProvider\<close>

fun initProvider :: "chain_env \<Rightarrow> string option list \<Rightarrow> world \<Rightarrow> world" where
  "initProvider ce [] w = w"
| "initProvider ce (None # rest) w = initProvider ce rest w"
| "initProvider ce (Some rpc # rest) w =
     (if rpc = [] then initProvider ce rest w
      else (case getBlockNumber ce (requests w) rpc of
              Inr h \<Rightarrow> say (RpcWorking rpc) (w\<lparr>requests := requests w + 1, provider := Some rpc\<rparr>)
            | Inl e \<Rightarrow> initProvider ce rest (say (RpcFailed rpc e) (w\<lparr>requests := requests w + 1\<rparr>))))"

subsection \<open>postOrderEvent\<close>

definition postOrderEvent :: "chain_env \<Rightarrow> payload \<Rightarrow> world \<Rightarrow> bool \<times> world" where
  "postOrderEvent ce p w =
     (let w1 = w\<lparr>posted := posted w @ [p]\<rparr> in
      case backend ce (length (posted w)) p of
        Accepted \<Rightarrow> (True, w1)
      | Rejected code \<Rightarrow> (False, say (BackendRejected code) w1)
      | Failed msg \<Rightarrow> (False, say (BackendError msg) w1))"

subsection \<open>safeQueryFilter\<close>

definition contract_queryFilter ::
  "chain_env \<Rightarrow> event_kind \<Rightarrow> int \<Rightarrow> int \<Rightarrow> world \<Rightarrow> (string + log_entry list) \<times> world" where
  "contract_queryFilter ce k from to w =
     (case seaportContract w of
        None \<Rightarrow> (Inl ''TypeError'', w)
      | Some rpc \<Rightarrow>
          (queryFilter ce (requests w) rpc k from to,
           w\<lparr>requests := requests w + 1, queries := queries w @ [(k, from, to)]\<rparr>))"

function safeQueryFilter ::
  "chain_env \<Rightarrow> event_kind \<Rightarrow> int \<Rightarrow> int \<Rightarrow> nat \<Rightarrow> world \<Rightarrow> (string + log_entry list) \<times> world" where
  "safeQueryFilter ce k from to retry w =
     (case contract_queryFilter ce k from to w of
        (Inr logs, w1) \<Rightarrow> (Inr logs, w1)
      | (Inl e, w1) \<Rightarrow>
          if retry < 3 then
            safeQueryFilter ce k from to (retry + 1)
              ((say (RetryWarn (retry + 1) e) w1)\<lparr>sleeps := sleeps w1 @ [2000 * (retry + 1)]\<rparr>)
          else (Inl e, w1))"
  by pat_completeness auto
termination
  by (relation "measure (\<lambda>(ce, k, from, to, retry, w). 3 - retry)") auto

declare safeQueryFilter.simps [simp del]

subsection \<open>queryInChunks\<close>

definition CHUNK :: int where
  "CHUNK = 5000"

text \<open>
  The body of one iteration, once \<open>end\<close> is known: the console line, then the callback,
  whose exception is caught and reported.
\<close>

definition chunk_step ::
  "(int \<Rightarrow> int \<Rightarrow> world \<Rightarrow> (string + unit) \<times> world) \<Rightarrow> int \<Rightarrow> int \<Rightarrow> world \<Rightarrow> world" where
  "chunk_step callback start end' w =
     (case callback start end' (say (ChunkScan start end') w) of
        (Inr u, w') \<Rightarrow> w'
      | (Inl e, w') \<Rightarrow> say (ChunkError e) w')"

text \<open>
  The loop \<open>while (start <= to)\<close>, with \<open>start\<close> initialised to \<open>from\<close>. The loop may
  run forever, in which case the result is \<open>None\<close>.
\<close>

partial_function (option) queryInChunks ::
  "(int \<Rightarrow> int \<Rightarrow> world \<Rightarrow> (string + unit) \<times> world) \<Rightarrow> int \<Rightarrow> int \<Rightarrow> world \<Rightarrow> world option" where
  "queryInChunks callback start to w =
     (if start \<le> to then
        (let end' = min (js_add start CHUNK) to
         in queryInChunks callback (js_add end' 1) to (chunk_step callback start end' w))
      else Some w)"

subsection \<open>Normalising a log entry into an order payload\<close>

text \<open>
  Modelled from the spec: \<open>ethers.utils.formatUnits\<close> belongs to the ethers library, which
  is not among the sources. The spec asks for the start amount "rendered as a fixed-point
  decimal string" with the given number of decimals, and gives \<open>"1.0"\<close> for
  \<open>10^18\<close> at 18 decimals: the whole part, a point, and the fraction padded to
  \<open>decimals\<close> digits with its trailing zeros removed down to one digit.
\<close>

definition strip_zeros :: "string \<Rightarrow> string" where
  "strip_zeros s =
     (let t = rev (dropWhile (\<lambda>c. c = CHR ''0'') (rev s)) in if t = [] then ''0'' else t)"

definition formatUnits :: "nat \<Rightarrow> nat \<Rightarrow> string" where
  "formatUnits v decimals =
     (let multiplier = 10 ^ decimals;
          fraction = toString (v mod multiplier);
          padded = replicate (decimals - length fraction) (CHR ''0'') @ fraction;
          whole = toString (v div multiplier)
      in if decimals = 0 then whole else whole @ ''.'' @ strip_zeros padded)"

text \<open>\<open>ev.args || {}\<close>, and \<open>xs?.[0]\<close> on an optional array.\<close>

definition no_args :: order_args where
  "no_args = \<lparr>arg_orderHash = None, arg_offerer = None, arg_fulfiller = None,
     arg_offer = None, arg_consideration = None\<rparr>"

definition args_or_empty :: "log_entry \<Rightarrow> order_args" where
  "args_or_empty ev = (case args ev of None \<Rightarrow> no_args | Some a \<Rightarrow> a)"

definition first_item :: "item list option \<Rightarrow> item option" where
  "first_item xs = (case xs of None \<Rightarrow> None | Some [] \<Rightarrow> None | Some (x # rest) \<Rightarrow> Some x)"

definition payload_validated :: "process_env \<Rightarrow> log_entry \<Rightarrow> payload" where
  "payload_validated env ev =
     (let a = args_or_empty ev;
          offerItem = first_item (arg_offer a);
          considerationItem = first_item (arg_consideration a)
      in \<lparr>tokenId = or_null (map_option (\<lambda>i. toString (identifier i)) offerItem),
          price = map_option (\<lambda>i. formatUnits (startAmount i) 18) considerationItem,
          sellerAddress = or_null (map_option toLowerCase (arg_offerer a)),
          buyerAddress = None,
          seaportOrder = (arg_orderHash a, Some a),
          orderHash = arg_orderHash a,
          image = None,
          nftContract = NFT_CONTRACT_ADDRESS env,
          marketplaceContract = SEAPORT_CONTRACT_ADDRESS env,
          status = ''active'',
          onChainBlock = blockNumber ev\<rparr>)"

definition payload_fulfilled :: "process_env \<Rightarrow> log_entry \<Rightarrow> payload" where
  "payload_fulfilled env ev =
     (let a = args_or_empty ev;
          offerItem = first_item (arg_offer a);
          considerationItem = first_item (arg_consideration a)
      in \<lparr>tokenId = or_null (map_option (\<lambda>i. toString (identifier i)) offerItem),
          price = map_option (\<lambda>i. formatUnits (startAmount i) 18) considerationItem,
          sellerAddress = or_null (map_option toLowerCase (arg_offerer a)),
          buyerAddress = or_null (map_option toLowerCase (arg_fulfiller a)),
          seaportOrder = (arg_orderHash a, Some a),
          orderHash = arg_orderHash a,
          image = None,
          nftContract = NFT_CONTRACT_ADDRESS env,
          marketplaceContract = SEAPORT_CONTRACT_ADDRESS env,
          status = ''fulfilled'',
          onChainBlock = blockNumber ev\<rparr>)"

definition payload_cancelled :: "process_env \<Rightarrow> log_entry \<Rightarrow> payload" where
  "payload_cancelled env ev =
     (let a = args_or_empty ev
      in \<lparr>tokenId = None,
          price = None,
          sellerAddress = or_null (map_option toLowerCase (arg_offerer a)),
          buyerAddress = None,
          seaportOrder = (arg_orderHash a, None),
          orderHash = arg_orderHash a,
          image = None,
          nftContract = NFT_CONTRACT_ADDRESS env,
          marketplaceContract = SEAPORT_CONTRACT_ADDRESS env,
          status = ''cancelled'',
          onChainBlock = blockNumber ev\<rparr>)"

subsection \<open>The three passes of main\<close>

text \<open>
  Each pass hands \<open>queryInChunks\<close> a callback of the same shape: query the sub-range
  through \<open>safeQueryFilter\<close>, then post one payload per event and count the accepted ones.
  An exception of the query leaves the callback before any event is handled.
\<close>

definition handle_event ::
  "chain_env \<Rightarrow> (log_entry \<Rightarrow> payload) \<Rightarrow> (world \<Rightarrow> world) \<Rightarrow> world \<Rightarrow> log_entry \<Rightarrow> world" where
  "handle_event ce mk count w ev =
     (case postOrderEvent ce (mk ev) w of (ok, w') \<Rightarrow> if ok then count w' else w')"

definition pass_callback ::
  "chain_env \<Rightarrow> event_kind \<Rightarrow> (log_entry \<Rightarrow> payload) \<Rightarrow> (world \<Rightarrow> world) \<Rightarrow>
     int \<Rightarrow> int \<Rightarrow> world \<Rightarrow> (string + unit) \<times> world" where
  "pass_callback ce k mk count start end' w =
     (case safeQueryFilter ce k start end' 0 w of
        (Inl e, w1) \<Rightarrow> (Inl e, w1)
      | (Inr events, w1) \<Rightarrow> (Inr (), foldl (handle_event ce mk count) w1 events))"

definition active_callback :: "process_env \<Rightarrow> chain_env \<Rightarrow> int \<Rightarrow> int \<Rightarrow> world \<Rightarrow> (string + unit) \<times> world" where
  "active_callback env ce =
     pass_callback ce OrderValidated (payload_validated env) (\<lambda>w. w\<lparr>totalActive := totalActive w + 1\<rparr>)"

definition fulfilled_callback :: "process_env \<Rightarrow> chain_env \<Rightarrow> int \<Rightarrow> int \<Rightarrow> world \<Rightarrow> (string + unit) \<times> world" where
  "fulfilled_callback env ce =
     pass_callback ce OrderFulfilled (payload_fulfilled env) (\<lambda>w. w\<lparr>totalFulfilled := totalFulfilled w + 1\<rparr>)"

definition cancelled_callback :: "process_env \<Rightarrow> chain_env \<Rightarrow> int \<Rightarrow> int \<Rightarrow> world \<Rightarrow> (string + unit) \<times> world" where
  "cancelled_callback env ce =
     pass_callback ce OrderCancelled (payload_cancelled env) (\<lambda>w. w\<lparr>totalCancelled := totalCancelled w + 1\<rparr>)"

record outcome =
  exit_code :: nat
  final :: world

text \<open>
  The whole script: the check of the environment at load time, then \<open>main\<close> with its
  \<open>catch\<close> handler. \<open>None\<close> is a run that never ends.
\<close>

definition main_seaport :: "process_env \<Rightarrow> chain_env \<Rightarrow> outcome option" where
  "main_seaport env ce =
     (if falsy (BACKEND_URL env) \<or> falsy (NFT_CONTRACT_ADDRESS env) \<or> falsy (SEAPORT_CONTRACT_ADDRESS env)
      then Some \<lparr>exit_code = 1, final = say MissingEnv world0\<rparr>
      else
        (let w1 = initProvider ce (RPC_LIST env) (say SyncStarted world0) in
         case provider w1 of
           None \<Rightarrow> Some \<lparr>exit_code = 1, final = say NoRpc w1\<rparr>
         | Some rpc \<Rightarrow>
             (let w2 = w1\<lparr>seaportContract := Some rpc, requests := requests w1 + 1\<rparr> in
              case getBlockNumber ce (requests w1) rpc of
                Inl e \<Rightarrow> Some \<lparr>exit_code = 1, final = say (Fatal e) w2\<rparr>
              | Inr latestBlock \<Rightarrow>
                  do {
                    w3 \<leftarrow> queryInChunks (active_callback env ce) (FROM_BLOCK env) latestBlock
                           (say (BlockRange (FROM_BLOCK env) latestBlock) w2);
                    w4 \<leftarrow> queryInChunks (fulfilled_callback env ce) (FROM_BLOCK env) latestBlock w3;
                    w5 \<leftarrow> queryInChunks (cancelled_callback env ce) (FROM_BLOCK env) latestBlock w4;
                    Some \<lparr>exit_code = 0,
                      final = say (SyncFinished (totalActive w5) (totalFulfilled w5) (totalCancelled w5)) w5\<rparr>
                  })))"

section \<open>syncNFTMetadata.js\<close>

subsection \<open>Chain responses, records and the state of the process\<close>

text \<open>
  The chain state seen by one run: what each endpoint answers to the three view functions,
  and what the metadata URL returns (an exception of the transfer, of the JSON decoding or
  of the access to \<open>name\<close>, or the \<open>name\<close> property of the decoded object when it has
  one). An endpoint is the URL its
  provider was built from; the first entry of \<open>RPC_LIST\<close> is unset when the variable is.
\<close>

record nft_env =
  ownerOf :: "string option \<Rightarrow> nat \<Rightarrow> string + string"
  tokenURI :: "string option \<Rightarrow> nat \<Rightarrow> string + string"
  totalSupply :: "string option \<Rightarrow> string + nat"
  fetch_json :: "string \<Rightarrow> string + string option"

record ownership_record =
  token_id :: string
  nft_contract :: "string option"
  owner_address :: string
  name :: "string option"

datatype nft_line =
    RpcWarn nat nat string
  | MetadataWarn nat string
  | Saved nat string "string option"
  | TokenError nat string
  | TotalNFTs nat
  | Completed
  | FatalError string
  | Uncaught string

text \<open>A read sent to the chain: the view function, the endpoint it went to, the token.\<close>

datatype rpc_call =
    OwnerOfCall "string option" nat
  | TokenURICall "string option" nat
  | TotalSupplyCall "string option"

text \<open>
  \<open>bound_rpc\<close> is the endpoint of the provider that the module-level \<open>nftContract\<close> is
  bound to; \<open>calls\<close> are the reads sent so far and \<open>upserts\<close> the records handed to the
  store, both in the order they were sent; \<open>resumed\<close> counts the answers that have come
  back to a suspended \<open>processNFT\<close>.
\<close>

record nft_state =
  providerIndex :: nat
  bound_rpc :: "string option"
  calls :: "rpc_call list"
  upserts :: "ownership_record list"
  nft_console :: "nft_line list"
  resumed :: nat

definition warn :: "nft_line \<Rightarrow> nft_state \<Rightarrow> nft_state" where
  "warn l st = st\<lparr>nft_console := nft_console st @ [l]\<rparr>"

subsection \<open>getProvider and the module-level bindings\<close>

definition getProvider :: "process_env \<Rightarrow> nft_state \<Rightarrow> string option \<times> nft_state" where
  "getProvider env st =
     (RPC_LIST env ! (providerIndex st mod length (RPC_LIST env)),
      st\<lparr>providerIndex := providerIndex st + 1\<rparr>)"

text \<open>The state before the first statement of the module.\<close>

definition nft_state0 :: nft_state where
  "nft_state0 = \<lparr>providerIndex = 0, bound_rpc = None, calls = [], upserts = [],
     nft_console = [], resumed = 0\<rparr>"

text \<open>
  Modelled from the spec: \<open>createClient\<close> and the \<open>Contract\<close> constructor belong to the
  supabase and ethers libraries, which are not among the sources. The spec gives "missing
  required configuration" as a startup-level fatal condition: \<open>createClient\<close> refuses an
  absent or empty URL or key, and the \<open>Contract\<close> constructor refuses an absent address
  (values that are set are taken to be well-formed).
  Both are called while the module loads (lines 12-15 and 52), outside any \<open>try\<close>, so the
  exception ends the process before \<open>main\<close> is called. Between them, \<open>providerIndex = 0\<close>
  and \<open>provider = getProvider()\<close>.
\<close>

definition nft_load :: "process_env \<Rightarrow> nft_state + nft_state" where
  "nft_load env =
     (if falsy (SUPABASE_URL env) then Inl (warn (Uncaught ''supabaseUrl is required.'') nft_state0)
      else if falsy (SUPABASE_SERVICE_ROLE_KEY env)
        then Inl (warn (Uncaught ''supabaseKey is required.'') nft_state0)
      else (case getProvider env nft_state0 of
              (rpc, st) \<Rightarrow>
                (case NFT_CONTRACT_ADDRESS env of
                   None \<Rightarrow> Inl (warn (Uncaught ''invalid contract address or ENS name'') st)
                 | Some address \<Rightarrow> Inr (st\<lparr>bound_rpc := rpc\<rparr>))))"

text \<open>
  A view function called on \<open>nftContract\<close> goes to the endpoint the contract is bound to
  at the moment of the call, which answers it.
\<close>

definition contract_ownerOf :: "nft_env \<Rightarrow> nat \<Rightarrow> nft_state \<Rightarrow> (string + string) \<times> nft_state" where
  "contract_ownerOf ne t st =
     (ownerOf ne (bound_rpc st) t, st\<lparr>calls := calls st @ [OwnerOfCall (bound_rpc st) t]\<rparr>)"

definition contract_tokenURI :: "nft_env \<Rightarrow> nat \<Rightarrow> nft_state \<Rightarrow> (string + string) \<times> nft_state" where
  "contract_tokenURI ne t st =
     (tokenURI ne (bound_rpc st) t, st\<lparr>calls := calls st @ [TokenURICall (bound_rpc st) t]\<rparr>)"

definition contract_totalSupply :: "nft_env \<Rightarrow> nft_state \<Rightarrow> (string + nat) \<times> nft_state" where
  "contract_totalSupply ne st =
     (totalSupply ne (bound_rpc st), st\<lparr>calls := calls st @ [TotalSupplyCall (bound_rpc st)]\<rparr>)"

subsection \<open>processNFT\<close>

text \<open>
  \<open>processNFT\<close> is an \<open>async\<close> function: it runs until its next \<open>await\<close>, where it is
  suspended until the awaited answer arrives, and other code runs in between. A suspended
  call is a \<open>pending_call\<close>: the place where it waits, its local variables (\<open>tokenId\<close>, the loop
  counter \<open>i\<close>, \<open>owner\<close>, \<open>name\<close>) and the answer it is waiting for, which was fixed by
  the endpoint the request was sent to.

    \<^item> \<open>AwaitOwnerOf tokenId i answer\<close>: at \<open>await nftContract.ownerOf(tokenId)\<close>;
    \<^item> \<open>AwaitTokenURI tokenId i owner answer\<close>: at \<open>await nftContract.tokenURI(tokenId)\<close>;
    \<^item> \<open>AwaitMetadata tokenId owner answer\<close>: at \<open>await fetch(..)\<close> and the
      \<open>await metadataRes.json()\<close> that follows it, between which the call touches nothing;
    \<^item> \<open>AwaitUpsert tokenId owner name\<close>: at \<open>await supabase.from("nfts").upsert(..)\<close>.
\<close>

datatype pending_call =
    AwaitOwnerOf nat nat "string + string"
  | AwaitTokenURI nat nat string "string + string"
  | AwaitMetadata nat string "string + string option"
  | AwaitUpsert nat string "string option"

text \<open>The gateway form of a token URI: \<open>ipfs://\<close> is replaced where the URI starts with it.\<close>

definition tokenURI_HTTP :: "string \<Rightarrow> string" where
  "tokenURI_HTTP uri =
     (if take 7 uri = ''ipfs://'' then ''https://ipfs.io/ipfs/'' @ drop 7 uri else uri)"

text \<open>
  The head of the loop \<open>for (let i = 0; i < RPC_LIST.length; i++)\<close>: iteration \<open>i\<close> sends
  \<open>ownerOf\<close> on the contract as it is bound now and suspends; after the last iteration
  \<open>success\<close> is still false, the error is thrown and the outer \<open>catch\<close> reports it, which
  ends the call.
\<close>

definition rpc_fallback :: "nft_env \<Rightarrow> process_env \<Rightarrow> nat \<Rightarrow> nat \<Rightarrow> nft_state \<Rightarrow> pending_call option \<times> nft_state" where
  "rpc_fallback ne env t i st =
     (if i < length (RPC_LIST env) then
        (case contract_ownerOf ne t st of (answer, st') \<Rightarrow> (Some (AwaitOwnerOf t i answer), st'))
      else (None, warn (TokenError t ''All RPC endpoints failed'') st))"

text \<open>
  The \<open>catch\<close> of the loop body: the warning, then \<open>provider = getProvider()\<close> and a new
  \<open>nftContract\<close> on it. Both variables belong to the module, not to the call.
\<close>

definition rebind :: "process_env \<Rightarrow> nat \<Rightarrow> nat \<Rightarrow> string \<Rightarrow> nft_state \<Rightarrow> nft_state" where
  "rebind env t i e st =
     (case getProvider env (warn (RpcWarn (i + 1) t e) st) of (rpc, st') \<Rightarrow> st'\<lparr>bound_rpc := rpc\<rparr>)"

text \<open>A call of \<open>processNFT(tokenId)\<close> runs to its first \<open>await\<close>.\<close>

definition processNFT :: "nft_env \<Rightarrow> process_env \<Rightarrow> nat \<Rightarrow> nft_state \<Rightarrow> pending_call option \<times> nft_state" where
  "processNFT ne env t st = rpc_fallback ne env t 0 st"

text \<open>
  A suspended call receives its answer and runs to its next \<open>await\<close>, or to its end
  (\<open>None\<close>). The record is handed to the store when the call reaches the \<open>upsert\<close>.
\<close>

fun resume :: "nft_env \<Rightarrow> process_env \<Rightarrow> pending_call \<Rightarrow> nft_state \<Rightarrow> pending_call option \<times> nft_state" where
  "resume ne env (AwaitOwnerOf t i (Inr owner)) st =
     (case contract_tokenURI ne t st of (answer, st') \<Rightarrow> (Some (AwaitTokenURI t i owner answer), st'))"
| "resume ne env (AwaitOwnerOf t i (Inl e)) st = rpc_fallback ne env t (i + 1) (rebind env t i e st)"
| "resume ne env (AwaitTokenURI t i owner (Inr uri)) st =
     (Some (AwaitMetadata t owner (fetch_json ne (tokenURI_HTTP uri))), st)"
| "resume ne env (AwaitTokenURI t i owner (Inl e)) st = rpc_fallback ne env t (i + 1) (rebind env t i e st)"
| "resume ne env (AwaitMetadata t owner (Inr n)) st =
     (Some (AwaitUpsert t owner (or_null n)),
      st\<lparr>upserts := upserts st @
        [\<lparr>token_id = toString t, nft_contract = NFT_CONTRACT_ADDRESS env,
          owner_address = toLowerCase owner, name = or_null n\<rparr>]\<rparr>)"
| "resume ne env (AwaitMetadata t owner (Inl e)) st =
     (Some (AwaitUpsert t owner None),
      (warn (MetadataWarn t e) st)\<lparr>upserts := upserts st @
        [\<lparr>token_id = toString t, nft_contract = NFT_CONTRACT_ADDRESS env,
          owner_address = toLowerCase owner, name = None\<rparr>]\<rparr>)"
| "resume ne env (AwaitUpsert t owner n) st = (None, warn (Saved t owner n) st)"

subsection \<open>main\<close>

definition BATCH_SIZE :: nat where
  "BATCH_SIZE = 20"

text \<open>What a call leaves on the list of pending calls: itself while suspended, nothing once ended.\<close>

definition waiting :: "pending_call option \<Rightarrow> pending_call list" where
  "waiting next = (case next of None \<Rightarrow> [] | Some c \<Rightarrow> [c])"

text \<open>
  \<open>batch.map(tokenId => processNFT(tokenId))\<close> calls \<open>processNFT\<close> for each token of the
  batch in turn; each call returns at its first \<open>await\<close>, so all the calls of a batch are
  pending before any of them is resumed.
\<close>

definition start_batch :: "nft_env \<Rightarrow> process_env \<Rightarrow> nat list \<Rightarrow> nft_state \<Rightarrow> pending_call list \<times> nft_state" where
  "start_batch ne env batch st =
     foldl (\<lambda>(pending, s) t. case processNFT ne env t s of (started, s') \<Rightarrow> (pending @ waiting started, s'))
       ([], st) batch"

text \<open>
  How often a pending call can still be resumed, at most. Every resumption lowers it, so a
  batch comes to its end whatever the order in which the answers arrive.
\<close>

definition steps_left :: "process_env \<Rightarrow> pending_call \<Rightarrow> nat" where
  "steps_left env c =
     (case c of
        AwaitOwnerOf t i answer \<Rightarrow> 2 * (length (RPC_LIST env) - i) + 4
      | AwaitTokenURI t i owner answer \<Rightarrow> 2 * (length (RPC_LIST env) - i) + 3
      | AwaitMetadata t owner answer \<Rightarrow> 2
      | AwaitUpsert t owner n \<Rightarrow> 1)"

text \<open>
  The order in which the pending answers arrive belongs to the network. \<open>arrival\<close> gives
  it: when \<open>n\<close> answers have come back, the next one is for the pending call at position
  \<open>arrival n\<close> (taken modulo the number of pending calls). That call runs to its next
  \<open>await\<close> and, unless it has ended, waits again behind the others.
\<close>

definition resume_at :: "nft_env \<Rightarrow> process_env \<Rightarrow> nat \<Rightarrow> pending_call list \<Rightarrow> nft_state \<Rightarrow> pending_call list \<times> nft_state" where
  "resume_at ne env k pending st =
     (case resume ne env (pending ! k) (st\<lparr>resumed := resumed st + 1\<rparr>) of
        (next, st') \<Rightarrow> (take k pending @ drop (Suc k) pending @ waiting next, st'))"

function run_batch :: "nft_env \<Rightarrow> process_env \<Rightarrow> (nat \<Rightarrow> nat) \<Rightarrow> pending_call list \<Rightarrow> nft_state \<Rightarrow> nft_state" where
  "run_batch ne env arrival pending st =
     (if pending = [] then st
      else (case resume_at ne env (arrival (resumed st) mod length pending) pending st of
              (pending', st') \<Rightarrow> run_batch ne env arrival pending' st'))"
  by pat_completeness auto
termination
proof (relation "measure (\<lambda>(ne, env, arrival, pending, st). sum_list (map (steps_left env) pending))")
  show "wf (measure (\<lambda>(ne, env, arrival, pending, st). sum_list (map (steps_left env) pending)))"
    by simp
next
  fix ne :: nft_env and env :: process_env and arrival :: "nat \<Rightarrow> nat"
    and pending pending' :: "pending_call list" and st st' :: nft_state
  assume ne: "pending \<noteq> []"
    and p: "(pending', st') = resume_at ne env (arrival (resumed st) mod length pending) pending st"
  define k where "k = arrival (resumed st) mod length pending"
  define s where "s = st\<lparr>resumed := resumed st + 1\<rparr>"
  have k: "k < length pending"
    using ne by (simp add: k_def)
  have fb: "fst (rpc_fallback ne env t i s') = None \<or>
            (i < length (RPC_LIST env) \<and> (\<exists>a. fst (rpc_fallback ne env t i s') = Some (AwaitOwnerOf t i a)))"
    for t i s'
    by (simp add: rpc_fallback_def contract_ownerOf_def)
  have less: "sum_list (map (steps_left env) (waiting (fst (resume ne env c s)))) < steps_left env c"
    for c
  proof (cases c)
    case (AwaitOwnerOf t i a)
    show ?thesis
    proof (cases a)
      case (Inl e)
      with AwaitOwnerOf fb[of t "i + 1" "rebind env t i e s"] show ?thesis
        by (auto simp: steps_left_def waiting_def)
    next
      case (Inr owner)
      with AwaitOwnerOf show ?thesis
        by (simp add: steps_left_def contract_tokenURI_def waiting_def)
    qed
  next
    case (AwaitTokenURI t i owner a)
    show ?thesis
    proof (cases a)
      case (Inl e)
      with AwaitTokenURI fb[of t "i + 1" "rebind env t i e s"] show ?thesis
        by (auto simp: steps_left_def waiting_def)
    next
      case (Inr uri)
      with AwaitTokenURI show ?thesis
        by (simp add: steps_left_def waiting_def)
    qed
  next
    case (AwaitMetadata t owner a)
    then show ?thesis
      by (cases a) (simp_all add: steps_left_def waiting_def)
  next
    case (AwaitUpsert t owner n)
    then show ?thesis
      by (simp add: steps_left_def waiting_def)
  qed
  have split: "sum_list (map (steps_left env) pending) =
      sum_list (map (steps_left env) (take k pending @ drop (Suc k) pending)) + steps_left env (pending ! k)"
  proof -
    have "pending = take k pending @ pending ! k # drop (Suc k) pending"
      by (rule id_take_nth_drop[OF k])
    then have "sum_list (map (steps_left env) pending) =
       sum_list (map (steps_left env) (take k pending @ pending ! k # drop (Suc k) pending))"
      by simp
    also have "\<dots> = sum_list (map (steps_left env) (take k pending @ drop (Suc k) pending)) + steps_left env (pending ! k)"
      by (simp del: append_take_drop_id)
    finally show ?thesis .
  qed
  have "pending' = take k pending @ drop (Suc k) pending @ waiting (fst (resume ne env (pending ! k) s))"
    using p unfolding resume_at_def k_def s_def by (auto split: prod.splits)
  then have "sum_list (map (steps_left env) pending') < sum_list (map (steps_left env) pending)"
    using less[of "pending ! k"] split by simp
  then show "((ne, env, arrival, pending', st'), (ne, env, arrival, pending, st))
      \<in> measure (\<lambda>(ne, env, arrival, pending, st). sum_list (map (steps_left env) pending))"
    by simp
qed

declare run_batch.simps [simp del]

text \<open>
  The loop of \<open>main\<close>: the tokens of a batch are started together, and
  \<open>await Promise.allSettled(..)\<close> returns when the last of them has ended.
\<close>

function batches ::
  "nft_env \<Rightarrow> process_env \<Rightarrow> (nat \<Rightarrow> nat) \<Rightarrow> nat \<Rightarrow> nat \<Rightarrow> nft_state \<Rightarrow> nft_state" where
  "batches ne env arrival supply i st =
     (if i < supply then
        (case start_batch ne env (filter (\<lambda>tid. tid < supply) (map (\<lambda>j. i + j) [0..<BATCH_SIZE])) st of
           (pending, st') \<Rightarrow>
             batches ne env arrival supply (i + BATCH_SIZE) (run_batch ne env arrival pending st'))
      else st)"
  by pat_completeness auto
termination
  by (relation "measure (\<lambda>(ne, env, arrival, supply, i, st). supply - i)") (auto simp: BATCH_SIZE_def)

declare batches.simps [simp del]

record nft_outcome =
  nft_exit_code :: nat
  nft_final :: nft_state

text \<open>
  The whole script: the module-level statements, then \<open>main\<close> with its \<open>catch\<close> handler.
  An exception while the module loads ends the process with code 1.
\<close>

definition main_nft :: "process_env \<Rightarrow> nft_env \<Rightarrow> (nat \<Rightarrow> nat) \<Rightarrow> nft_outcome" where
  "main_nft env ne arrival =
     (case nft_load env of
        Inl st \<Rightarrow> \<lparr>nft_exit_code = 1, nft_final = st\<rparr>
      | Inr st0 \<Rightarrow>
          (case contract_totalSupply ne st0 of
             (Inl e, st1) \<Rightarrow> \<lparr>nft_exit_code = 1, nft_final = warn (FatalError e) st1\<rparr>
           | (Inr supply, st1) \<Rightarrow>
               \<lparr>nft_exit_code = 0,
                nft_final = warn Completed (batches ne env arrival supply 0 (warn (TotalNFTs supply) st1))\<rparr>))"

subsection \<open>The record store\<close>

text \<open>
  Modelled from the spec: the store behind \<open>supabase.from("nfts").upsert\<close> is an external
  collaborator; the spec gives it as "upsert keyed by token id into a record store; conflict
  resolution = overwrite".
\<close>

type_synonym store = "string \<rightharpoonup> ownership_record"

definition upsert :: "store \<Rightarrow> ownership_record \<Rightarrow> store" where
  "upsert db r = db(token_id r \<mapsto> r)"

definition apply_upserts :: "store \<Rightarrow> ownership_record list \<Rightarrow> store" where
  "apply_upserts db rs = foldl upsert db rs"

section \<open>Observations and concrete scenarios\<close>

text \<open>The sub-ranges a scan has announced on the console, one per iteration of the loop.\<close>

fun scan_of :: "line \<Rightarrow> (int \<times> int) list" where
  "scan_of (ChunkScan s e) = [(s, e)]"
| "scan_of l = []"

definition chunk_scans :: "world \<Rightarrow> (int \<times> int) list" where
  "chunk_scans w = concat (map scan_of (console w))"

text \<open>A world whose contract is bound to an endpoint, as after \<open>initProvider\<close>.\<close>

definition bound_world :: world where
  "bound_world = world0\<lparr>provider := Some ''https://apechain.drpc.org'',
     seaportContract := Some ''https://apechain.drpc.org''\<rparr>"

text \<open>A chain whose log queries always time out, and one that answers from the third request on.\<close>

definition failing_chain :: chain_env where
  "failing_chain = \<lparr>getBlockNumber = (\<lambda>n rpc. Inr 12000),
     queryFilter = (\<lambda>n rpc k f t. Inl ''timeout''),
     backend = (\<lambda>n p. Accepted)\<rparr>"

definition flaky_chain :: chain_env where
  "flaky_chain = \<lparr>getBlockNumber = (\<lambda>n rpc. Inr 12000),
     queryFilter = (\<lambda>n rpc k f t. if n < 2 then Inl ''timeout'' else Inr []),
     backend = (\<lambda>n p. Accepted)\<rparr>"

text \<open>
  A process environment with every variable set, and two decoded logs: a validated order
  with no offer item, and a fulfilled order paid with one unit of an 18-decimal token.
\<close>

definition sample_env :: process_env where
  "sample_env = \<lparr>BACKEND_URL = Some ''https://backend.example'',
     NFT_CONTRACT_ADDRESS = Some ''0xNFT'',
     SEAPORT_CONTRACT_ADDRESS = Some ''0xSEAPORT'',
     FROM_BLOCK_var = None,
     APECHAIN_RPC = Some ''https://primary.example'',
     SUPABASE_URL = Some ''https://store.example'',
     SUPABASE_SERVICE_ROLE_KEY = Some ''service-role-key''\<rparr>"

definition one_unit :: item where
  "one_unit = \<lparr>token = ''0x0000'', party = ''0xSeller'', identifier = 0,
     startAmount = 1000000000000000000, endAmount = 1000000000000000000\<rparr>"

definition token_seven :: item where
  "token_seven = \<lparr>token = ''0xNFT'', party = ''0xConduit'', identifier = 7,
     startAmount = 1, endAmount = 1\<rparr>"

definition empty_offer_args :: order_args where
  "empty_offer_args = \<lparr>arg_orderHash = Some ''0xHASH1'', arg_offerer = Some ''0xABcd'',
     arg_fulfiller = None, arg_offer = Some [], arg_consideration = Some [one_unit]\<rparr>"

definition empty_offer_log :: log_entry where
  "empty_offer_log = \<lparr>args = Some empty_offer_args, blockNumber = 4242\<rparr>"

definition fulfilled_args :: order_args where
  "fulfilled_args = \<lparr>arg_orderHash = Some ''0xHASH2'', arg_offerer = Some ''0xABcd'',
     arg_fulfiller = Some ''0xBuyer'', arg_offer = Some [token_seven],
     arg_consideration = Some [one_unit]\<rparr>"

definition fulfilled_log :: log_entry where
  "fulfilled_log = \<lparr>args = Some fulfilled_args, blockNumber = 4300\<rparr>"



text \<open>
  What incrementing one of the three counters leaves alone: everything the scan and the
  queries read or report.
\<close>

definition counts_only :: "(world \<Rightarrow> world) \<Rightarrow> bool" where
  "counts_only count =
     (\<forall>w. posted (count w) = posted w \<and> console (count w) = console w \<and>
          requests (count w) = requests w \<and> queries (count w) = queries w \<and>
          seaportContract (count w) = seaportContract w)"

text \<open>
  A collection of three tokens on which all endpoints agree. Token 1 cannot be read on any
  endpoint; the metadata of token 0 is served, the metadata of token 2 is not.
\<close>

definition three_tokens :: nft_env where
  "three_tokens = \<lparr>ownerOf = (\<lambda>rpc t. if t = 1 then Inl ''call revert'' else Inr ''0xOwnerAB''),
     tokenURI = (\<lambda>rpc t. if t = 0 then Inr ''ipfs://meta/0'' else Inr ''https://meta.example/2''),
     totalSupply = (\<lambda>rpc. Inr 3),
     fetch_json = (\<lambda>url. if url = ''https://ipfs.io/ipfs/meta/0'' then Inr (Some ''Ape'') else Inl ''timeout'')\<rparr>"

text \<open>
  A collection of two tokens seen through four endpoints of which only
  \<open>apechain.drpc.org\<close>, the third of the list, answers the reads of a token; the supply
  is answered everywhere and the metadata is served.
\<close>

definition only_drpc :: nft_env where
  "only_drpc = \<lparr>ownerOf = (\<lambda>rpc t. if rpc = Some ''https://apechain.drpc.org'' then Inr ''0xOwnerAB'' else Inl ''unreachable''),
     tokenURI = (\<lambda>rpc t. if rpc = Some ''https://apechain.drpc.org'' then Inr ''https://meta.example/t'' else Inl ''unreachable''),
     totalSupply = (\<lambda>rpc. Inr 2),
     fetch_json = (\<lambda>url. Inr (Some ''Ape''))\<rparr>"

text \<open>
  Two orders of arrival: each answer arrives before the answers to the requests sent after
  it (the pending call that has waited longest is resumed), and, with two calls pending, the
  answer to the latest request arrives first.
\<close>

definition in_order :: "nat \<Rightarrow> nat" where
  "in_order n = 0"

definition latest_first :: "nat \<Rightarrow> nat" where
  "latest_first n = 1"

text \<open>The endpoints that the \<open>ownerOf\<close> reads for one token were sent to, in order.\<close>

fun owner_read :: "nat \<Rightarrow> rpc_call \<Rightarrow> string option list" where
  "owner_read t (OwnerOfCall rpc t') = (if t' = t then [rpc] else [])"
| "owner_read t c = []"

definition endpoints_tried :: "nat \<Rightarrow> nft_state \<Rightarrow> string option list" where
  "endpoints_tried t st = concat (map (owner_read t) (calls st))"

text \<open>
  A collection of three tokens seen through endpoints of which the configured one is down;
  the public endpoints answer.
\<close>

definition primary_down :: nft_env where
  "primary_down = \<lparr>ownerOf = (\<lambda>rpc t. if rpc = Some ''https://primary.example'' then Inl ''unreachable'' else Inr ''0xOwnerAB''),
     tokenURI = (\<lambda>rpc t. if rpc = Some ''https://primary.example'' then Inl ''unreachable'' else Inr ''https://meta.example/t''),
     totalSupply = (\<lambda>rpc. if rpc = Some ''https://primary.example'' then Inl ''unreachable'' else Inr 3),
     fetch_json = (\<lambda>url. Inr (Some ''Ape''))\<rparr>"

section \<open>The retrying query\<close>

lemma safeQueryFilter_trace:
  "seaportContract w = Some rpc \<Longrightarrow> retry \<le> 3 \<Longrightarrow>
   \<exists>n. n \<le> 3 - retry \<and>
       (\<forall>j<n. isl (queryFilter ce (requests w + j) rpc k from to)) \<and>
       fst (safeQueryFilter ce k from to retry w) = queryFilter ce (requests w + n) rpc k from to \<and>
       (isl (queryFilter ce (requests w + n) rpc k from to) \<longrightarrow> n = 3 - retry) \<and>
       requests (snd (safeQueryFilter ce k from to retry w)) = requests w + n + 1 \<and>
       sleeps (snd (safeQueryFilter ce k from to retry w)) =
         sleeps w @ map (\<lambda>j. 2000 * (retry + j + 1)) [0..<n]"
proof (induction ce k "from" to retry w rule: safeQueryFilter.induct)
  case (1 ce k "from" to retry w)
  let ?q = "\<lambda>i. queryFilter ce i rpc k from to"
  show ?case
  proof (cases "?q (requests w)")
    case (Inr logs)
    then have "safeQueryFilter ce k from to retry w =
        (Inr logs, w\<lparr>requests := requests w + 1, queries := queries w @ [(k, from, to)]\<rparr>)"
      using "1.prems" by (subst safeQueryFilter.simps) (simp add: contract_queryFilter_def)
    with Inr show ?thesis
      by (intro exI[of _ 0]) simp
  next
    case (Inl e)
    show ?thesis
    proof (cases "retry < 3")
      case False
      with Inl "1.prems"
      have "safeQueryFilter ce k from to retry w =
          (Inl e, w\<lparr>requests := requests w + 1, queries := queries w @ [(k, from, to)]\<rparr>)"
        by (subst safeQueryFilter.simps) (simp add: contract_queryFilter_def)
      with Inl False "1.prems" show ?thesis
        by (intro exI[of _ 0]) simp
    next
      case True
      let ?w1 = "w\<lparr>requests := requests w + 1, queries := queries w @ [(k, from, to)]\<rparr>"
      let ?w2 = "(say (RetryWarn (retry + 1) e) ?w1)\<lparr>sleeps := sleeps ?w1 @ [2000 * (retry + 1)]\<rparr>"
      have cq: "contract_queryFilter ce k from to w = (Inl e, ?w1)"
        using Inl "1.prems" by (simp add: contract_queryFilter_def)
      have unf: "safeQueryFilter ce k from to retry w = safeQueryFilter ce k from to (retry + 1) ?w2"
        using True cq by (subst safeQueryFilter.simps) simp
      have "seaportContract ?w2 = Some rpc" "retry + 1 \<le> 3"
        using "1.prems" True by (simp_all add: say_def)
      from "1.IH"[OF cq[symmetric] refl True this]
      obtain n where n: "n \<le> 3 - (retry + 1)"
        "\<forall>j<n. isl (?q (requests ?w2 + j))"
        "fst (safeQueryFilter ce k from to (retry + 1) ?w2) = ?q (requests ?w2 + n)"
        "isl (?q (requests ?w2 + n)) \<longrightarrow> n = 3 - (retry + 1)"
        "requests (snd (safeQueryFilter ce k from to (retry + 1) ?w2)) = requests ?w2 + n + 1"
        "sleeps (snd (safeQueryFilter ce k from to (retry + 1) ?w2)) =
           sleeps ?w2 @ map (\<lambda>j. 2000 * (retry + 1 + j + 1)) [0..<n]"
        by blast
      have r2: "requests ?w2 = requests w + 1" by (simp add: say_def)
      have s2: "sleeps ?w2 = sleeps w @ [2000 * (retry + 1)]" by (simp add: say_def)
      have all: "\<forall>j<Suc n. isl (?q (requests w + j))"
      proof (intro allI impI)
        fix j assume "j < Suc n"
        show "isl (?q (requests w + j))"
        proof (cases j)
          case 0 then show ?thesis using Inl by simp
        next
          case (Suc j')
          with \<open>j < Suc n\<close> n(2) r2 show ?thesis by simp
        qed
      qed
      have m: "map (\<lambda>j. 2000 * (retry + j + 1)) [0..<Suc n] =
               (2000 * (retry + 1)) # map (\<lambda>j. 2000 * (retry + 1 + j + 1)) [0..<n]"
        by (simp add: upt_conv_Cons map_Suc_upt[symmetric] del: upt_Suc)
      have b1: "Suc n \<le> 3 - retry" using n(1) True by arith
      have b3: "fst (safeQueryFilter ce k from to retry w) = ?q (requests w + Suc n)"
        using n(3) unfolding unf r2 by simp
      have b4: "isl (?q (requests w + Suc n)) \<longrightarrow> Suc n = 3 - retry"
        using n(4) True unfolding r2 by auto
      have b5: "requests (snd (safeQueryFilter ce k from to retry w)) = requests w + Suc n + 1"
        using n(5) unfolding unf r2 by simp
      have b6: "sleeps (snd (safeQueryFilter ce k from to retry w)) =
         sleeps w @ map (\<lambda>j. 2000 * (retry + j + 1)) [0..<Suc n]"
        using n(6) unfolding unf s2 m by simp
      from b1 all b3 b4 b5 b6 show ?thesis by blast
    qed
  qed
qed

text \<open>
  C4 (amended). Called with \<open>retry = 0\<close> on a bound contract, \<open>safeQueryFilter\<close> makes at
  least one and at most 4 attempts for one sub-range (the first call and up to 3 retries);
  before its \<open>a\<close>-th retry it waits \<open>2000 * a\<close> milliseconds; every attempt before the
  last one failed and the result is the answer of the last attempt, so a success is returned
  at once; and the result is a failure only when all 4 attempts were made.
\<close>

theorem safeQueryFilter_attempts:
  assumes "seaportContract w = Some rpc"
  shows "(let r = safeQueryFilter ce k from to 0 w; attempts = requests (snd r) - requests w in
          1 \<le> attempts \<and> attempts \<le> 4 \<and>
          sleeps (snd r) = sleeps w @ map (\<lambda>a. 2000 * a) [1..<attempts] \<and>
          (\<forall>j<attempts - 1. isl (queryFilter ce (requests w + j) rpc k from to)) \<and>
          fst r = queryFilter ce (requests w + (attempts - 1)) rpc k from to \<and>
          (isl (fst r) \<longrightarrow> attempts = 4))"
proof -
  from safeQueryFilter_trace[OF assms, of 0 ce k "from" to]
  obtain n where n: "n \<le> 3"
    "\<forall>j<n. isl (queryFilter ce (requests w + j) rpc k from to)"
    "fst (safeQueryFilter ce k from to 0 w) = queryFilter ce (requests w + n) rpc k from to"
    "isl (queryFilter ce (requests w + n) rpc k from to) \<longrightarrow> n = 3"
    "requests (snd (safeQueryFilter ce k from to 0 w)) = requests w + n + 1"
    "sleeps (snd (safeQueryFilter ce k from to 0 w)) = sleeps w @ map (\<lambda>j. 2000 * (0 + j + 1)) [0..<n]"
    by auto
  have a: "requests (snd (safeQueryFilter ce k from to 0 w)) - requests w = Suc n"
    using n(5) by simp
  have m: "map (\<lambda>a. 2000 * a) [1..<Suc n] = map (\<lambda>j. 2000 * (0 + j + 1)) [0..<n]"
    by (simp add: map_Suc_upt[symmetric] del: upt_Suc)
  show ?thesis
    unfolding Let_def a using n m by simp
qed

text \<open>
  On a chain that answers from the third request on, the query is attempted three times,
  with waits of 2000 and 4000 milliseconds, and the third answer is returned.
\<close>

theorem safeQueryFilter_attempts_witness:
  "seaportContract bound_world = Some ''https://apechain.drpc.org'' \<and>
   requests (snd (safeQueryFilter flaky_chain OrderValidated 0 5000 0 bound_world)) = 3 \<and>
   sleeps (snd (safeQueryFilter flaky_chain OrderValidated 0 5000 0 bound_world)) = [2000, 4000] \<and>
   fst (safeQueryFilter flaky_chain OrderValidated 0 5000 0 bound_world) = Inr []"
proof -
  have h: "seaportContract bound_world = Some ''https://apechain.drpc.org''"
    by (simp add: bound_world_def world0_def)
  have r: "requests (snd (safeQueryFilter flaky_chain OrderValidated 0 5000 0 bound_world)) = 3"
    by (simp add: safeQueryFilter.simps contract_queryFilter_def flaky_chain_def
        bound_world_def world0_def say_def)
  have z: "requests bound_world = 0" "sleeps bound_world = []"
    by (simp_all add: bound_world_def world0_def)
  have q: "queryFilter flaky_chain 2 ''https://apechain.drpc.org'' OrderValidated 0 5000 = Inr []"
    by (simp add: flaky_chain_def)
  have u: "[Suc 0..<3] = [Suc 0, 2]"
    by (simp add: upt_rec)
  show ?thesis
    using h safeQueryFilter_attempts[OF h, of flaky_chain OrderValidated 0 5000]
    by (simp add: Let_def r z q u)
qed

text \<open>
  On a chain whose queries always time out, one sub-range costs four attempts, not three.
\<close>

theorem safeQueryFilter_fourth_attempt:
  "requests (snd (safeQueryFilter failing_chain OrderValidated 0 5000 0 bound_world))
     - requests bound_world = 4 \<and>
   sleeps (snd (safeQueryFilter failing_chain OrderValidated 0 5000 0 bound_world))
     = [2000, 4000, 6000] \<and>
   \<not> requests (snd (safeQueryFilter failing_chain OrderValidated 0 5000 0 bound_world))
     - requests bound_world \<le> 3"
  by (simp add: safeQueryFilter.simps contract_queryFilter_def failing_chain_def
      bound_world_def world0_def say_def)

section \<open>Normalising order logs\<close>

lemma toString_digit: "n < 10 \<Longrightarrow> toString n = [digit_char n]"
  by (simp add: toString.simps)

lemma toString_digits: "10 \<le> n \<Longrightarrow> toString n = toString (n div 10) @ [digit_char (n mod 10)]"
  by (subst toString.simps) simp

lemma formatUnits_one: "formatUnits 1000000000000000000 18 = ''1.0''"
  by (simp add: formatUnits_def Let_def toString_digit digit_char_def strip_zeros_def)

text \<open>
  C7. A validated order whose offer array is empty is normalised without any failure: the
  payload has \<open>tokenId = null\<close>, its other fields are filled from the log as for any
  validated order, and the payload is posted to the backend.
\<close>

theorem validated_empty_offer:
  assumes "args ev = Some a" and "arg_offer a = Some []"
  shows "tokenId (payload_validated env ev) = None \<and>
         price (payload_validated env ev) =
           map_option (\<lambda>i. formatUnits (startAmount i) 18) (first_item (arg_consideration a)) \<and>
         sellerAddress (payload_validated env ev) = or_null (map_option toLowerCase (arg_offerer a)) \<and>
         buyerAddress (payload_validated env ev) = None \<and>
         seaportOrder (payload_validated env ev) = (arg_orderHash a, Some a) \<and>
         orderHash (payload_validated env ev) = arg_orderHash a \<and>
         nftContract (payload_validated env ev) = NFT_CONTRACT_ADDRESS env \<and>
         marketplaceContract (payload_validated env ev) = SEAPORT_CONTRACT_ADDRESS env \<and>
         status (payload_validated env ev) = ''active'' \<and>
         onChainBlock (payload_validated env ev) = blockNumber ev \<and>
         posted (handle_event ce (payload_validated env) (\<lambda>w. w\<lparr>totalActive := totalActive w + 1\<rparr>) w ev)
           = posted w @ [payload_validated env ev]"
proof -
  have "posted (handle_event ce (payload_validated env) (\<lambda>w. w\<lparr>totalActive := totalActive w + 1\<rparr>) w ev)
           = posted w @ [payload_validated env ev]"
    by (simp add: handle_event_def postOrderEvent_def Let_def say_def split: post_result.splits)
  then show ?thesis using assms
    by (simp add: payload_validated_def Let_def args_or_empty_def first_item_def or_null_def falsy_def)
qed

theorem validated_empty_offer_witness:
  "args empty_offer_log = Some empty_offer_args \<and> arg_offer empty_offer_args = Some [] \<and>
   tokenId (payload_validated sample_env empty_offer_log) = None \<and>
   price (payload_validated sample_env empty_offer_log) = Some ''1.0'' \<and>
   sellerAddress (payload_validated sample_env empty_offer_log) = Some ''0xabcd'' \<and>
   orderHash (payload_validated sample_env empty_offer_log) = Some ''0xHASH1'' \<and>
   status (payload_validated sample_env empty_offer_log) = ''active'' \<and>
   onChainBlock (payload_validated sample_env empty_offer_log) = 4242 \<and>
   posted (handle_event failing_chain (payload_validated sample_env)
      (\<lambda>w. w\<lparr>totalActive := totalActive w + 1\<rparr>) bound_world empty_offer_log)
     = [payload_validated sample_env empty_offer_log]"
proof -
  have h: "args empty_offer_log = Some empty_offer_args" "arg_offer empty_offer_args = Some []"
    by (simp_all add: empty_offer_log_def empty_offer_args_def)
  have c: "first_item (arg_consideration empty_offer_args) = Some one_unit"
    "arg_offerer empty_offer_args = Some ''0xABcd''"
    "arg_orderHash empty_offer_args = Some ''0xHASH1''"
    "blockNumber empty_offer_log = 4242"
    "startAmount one_unit = 1000000000000000000"
    "posted bound_world = []"
    by (simp_all add: empty_offer_log_def empty_offer_args_def first_item_def one_unit_def
        bound_world_def world0_def)
  have l: "or_null (Some (toLowerCase ''0xABcd'')) = Some ''0xabcd''"
    by (simp add: or_null_def falsy_def toLowerCase_def lower_char_def)
  from h validated_empty_offer[OF h, of sample_env failing_chain bound_world]
  show ?thesis by (simp add: c l formatUnits_one)
qed

text \<open>
  C8. A fulfilled order whose first consideration item has the start amount
  \<open>1000000000000000000\<close> is normalised, at 18 decimals, to the price \<open>"1.0"\<close>.
\<close>

theorem fulfilled_price_one_unit:
  assumes "args ev = Some a" and "arg_consideration a = Some (c # cs)"
    and "startAmount c = 1000000000000000000"
  shows "price (payload_fulfilled env ev) = Some ''1.0''"
  using assms
  by (simp add: payload_fulfilled_def Let_def args_or_empty_def first_item_def formatUnits_one)

theorem fulfilled_price_one_unit_witness:
  "args fulfilled_log = Some fulfilled_args \<and>
   arg_consideration fulfilled_args = Some (one_unit # []) \<and>
   startAmount one_unit = 1000000000000000000 \<and>
   price (payload_fulfilled sample_env fulfilled_log) = Some ''1.0''"
proof -
  have h: "args fulfilled_log = Some fulfilled_args"
    "arg_consideration fulfilled_args = Some (one_unit # [])"
    "startAmount one_unit = 1000000000000000000"
    by (simp_all add: fulfilled_log_def fulfilled_args_def one_unit_def)
  from h fulfilled_price_one_unit[OF h, of sample_env] show ?thesis by simp
qed

section \<open>Numbers within and beyond the exact range\<close>

lemma ulp_exponent_small: "a < 2 ^ 53 \<Longrightarrow> ulp_exponent a = 0"
  by (simp add: ulp_exponent.simps)

lemma ulp_exponent_large:
  "2 ^ 53 \<le> a \<Longrightarrow> 0 < ulp_exponent a \<and> 2 ^ 52 \<le> a div 2 ^ ulp_exponent a"
proof (induction a rule: ulp_exponent.induct)
  case (1 a)
  have u: "ulp_exponent a = Suc (ulp_exponent (a div 2))"
    using "1.prems" by (subst ulp_exponent.simps) simp
  show ?case
  proof (cases "a div 2 < 2 ^ 53")
    case True
    then have "ulp_exponent (a div 2) = 0" by (rule ulp_exponent_small)
    with u "1.prems" show ?thesis by simp
  next
    case False
    then have "2 ^ 53 \<le> a div 2" by simp
    with "1.IH" "1.prems" have "2 ^ 52 \<le> (a div 2) div 2 ^ ulp_exponent (a div 2)"
      by simp
    then show ?thesis using u by (simp add: div_mult2_eq)
  qed
qed

lemma js_number_exact: "\<bar>n\<bar> \<le> 2 ^ 53 \<Longrightarrow> js_number n = n"
proof (cases "\<bar>n\<bar> < 2 ^ 53")
  case True
  then have "nat \<bar>n\<bar> < 2 ^ 53" by (simp add: nat_less_iff)
  then have "ulp_exponent (nat \<bar>n\<bar>) = 0" by (rule ulp_exponent_small)
  then show ?thesis by (simp add: js_number_def Let_def sgn_if)
next
  case False
  assume "\<bar>n\<bar> \<le> 2 ^ 53"
  with False have "\<bar>n\<bar> = 2 ^ 53" by linarith
  then have a: "nat \<bar>n\<bar> = 2 ^ 53" by (simp add: nat_power_eq)
  have "ulp_exponent (2 ^ 53) = 1"
    by (subst ulp_exponent.simps) (simp add: ulp_exponent_small)
  with a have "js_number n = sgn n * 2 ^ 53"
    by (simp add: js_number_def Let_def)
  with False \<open>\<bar>n\<bar> \<le> 2 ^ 53\<close> show ?thesis by (simp add: sgn_if abs_if split: if_splits)
qed

lemma js_number_large: 
  assumes "2 ^ 53 \<le> n" shows "2 ^ 53 \<le> js_number n"
proof -
  define a where "a = nat \<bar>n\<bar>"
  define e where "e = ulp_exponent a"
  define q where "q = a div 2 ^ e"
  have a: "2 ^ 53 \<le> a" using assms by (simp add: a_def)
  from ulp_exponent_large[OF a] have e: "0 < e" and q: "2 ^ 52 \<le> q"
    by (simp_all add: e_def q_def)
  define r where "r = a mod 2 ^ e"
  define q' where "q' = (if 2 * r > 2 ^ e \<or> (2 * r = 2 ^ e \<and> odd q) then q + 1 else q)"
  have q': "js_number n = sgn n * int (q' * 2 ^ e)" "q \<le> q'"
    unfolding js_number_def Let_def q'_def r_def q_def e_def a_def by simp_all
  from e have "(2::nat) ^ 1 \<le> 2 ^ e" by (intro power_increasing) simp_all
  then have "(2::nat) \<le> 2 ^ e" by simp
  with q q'(2) have "2 ^ 52 * 2 \<le> q' * 2 ^ e" by (intro mult_le_mono) simp_all
  then have "(2::nat) ^ 53 \<le> q' * 2 ^ e" by simp
  from of_nat_mono[OF this, where 'a = int]
  have "(2::int) ^ 53 \<le> int (q' * 2 ^ e)" by simp
  moreover have "sgn n = 1" using assms by (simp add: sgn_if)
  ultimately show ?thesis using q'(1) by simp
qed

section \<open>The chunked scan\<close>

lemma queryInChunks_done: "to < start \<Longrightarrow> queryInChunks cb start to w = Some w"
  by (subst queryInChunks.simps) simp

lemma safe_bounds:
  assumes "- (2 ^ 53) \<le> start" and "start \<le> to" and "to < 2 ^ 53"
  shows "min (js_add start CHUNK) to = min (start + CHUNK) to"
    and "js_add (min (start + CHUNK) to) 1 = min (start + CHUNK) to + 1"
proof -
  show "min (js_add start CHUNK) to = min (start + CHUNK) to"
  proof (cases "start + CHUNK \<le> 2 ^ 53")
    case True
    with assms have "\<bar>start + CHUNK\<bar> \<le> 2 ^ 53" by (simp add: CHUNK_def abs_if)
    then show ?thesis by (simp add: js_add_def js_number_exact)
  next
    case False
    then have "2 ^ 53 \<le> js_number (start + CHUNK)" by (intro js_number_large) simp
    with assms False show ?thesis by (simp add: js_add_def min_def)
  qed
  have "\<bar>min (start + CHUNK) to + 1\<bar> \<le> 2 ^ 53"
    using assms by (simp add: CHUNK_def abs_if min_def)
  then show "js_add (min (start + CHUNK) to) 1 = min (start + CHUNK) to + 1"
    by (simp add: js_add_def js_number_exact)
qed

lemma queryInChunks_step:
  assumes "- (2 ^ 53) \<le> start" and "start \<le> to" and "to < 2 ^ 53"
  shows "queryInChunks cb start to w =
         queryInChunks cb (min (start + CHUNK) to + 1) to (chunk_step cb start (min (start + CHUNK) to) w)"
  using assms(2)
  by (subst queryInChunks.simps) (simp add: Let_def safe_bounds[OF assms])

lemma chunks_left:
  fixes to start :: int
  assumes "Suc m = nat ((5001 + (to - start)) div 5001)" and "start \<le> to"
  shows "(start + 5000 \<le> to \<longrightarrow> m = nat ((to - start) div 5001)) \<and>
         (\<not> start + 5000 \<le> to \<longrightarrow> m = 0)"
proof -
  have x: "0 \<le> (to - start) div 5001"
    using assms(2) by (simp add: pos_imp_zdiv_nonneg_iff)
  have "(5001 + (to - start)) div 5001 = (to - start) div 5001 + 1"
    by simp
  with assms(1) have "Suc m = nat ((to - start) div 5001 + 1)"
    by simp
  with x have m: "m = nat ((to - start) div 5001)"
    by linarith
  have "\<not> start + 5000 \<le> to \<Longrightarrow> (to - start) div 5001 = 0"
    using assms(2) by (intro div_pos_pos_trivial) simp_all
  with m show ?thesis by simp
qed

lemma queryInChunks_closed_form:
  "- (2 ^ 53) \<le> start \<Longrightarrow> to < 2 ^ 53 \<Longrightarrow> start \<le> to + 1 \<Longrightarrow>
   n = nat ((to - start + CHUNK + 1) div (CHUNK + 1)) \<Longrightarrow>
   queryInChunks cb start to w =
     Some (foldl (\<lambda>w (s, e). chunk_step cb s e w) w
       (map (\<lambda>k. (start + int k * (CHUNK + 1), min (start + int k * (CHUNK + 1) + CHUNK) to)) [0..<n]))"
proof (induction n arbitrary: start w)
  case 0
  then have "to < start" by (simp add: CHUNK_def)
  then show ?case by (simp add: queryInChunks_done)
next
  case (Suc m)
  from Suc.prems have le: "start \<le> to" by (simp add: CHUNK_def) 
  let ?e = "min (start + CHUNK) to"
  let ?w = "chunk_step cb start ?e w"
  note st = queryInChunks_step[OF Suc.prems(1) le Suc.prems(2), of cb w]
  have b: "- (2 ^ 53) \<le> ?e + 1" "?e + 1 \<le> to + 1"
    using Suc.prems le by (simp_all add: CHUNK_def min_def)
  have "Suc m = nat ((5001 + (to - start)) div 5001)"
    using Suc.prems(4) by (simp add: CHUNK_def)
  from chunks_left[OF this le]
  have m: "m = nat ((to - (?e + 1) + CHUNK + 1) div (CHUNK + 1))"
    by (simp add: CHUNK_def min_def)
  note ih = Suc.IH[OF b(1) Suc.prems(2) b(2) m, of ?w]
  have l: "map (\<lambda>k. (start + int k * (CHUNK + 1), min (start + int k * (CHUNK + 1) + CHUNK) to)) [0..<Suc m]
      = (start, ?e) # map (\<lambda>k. (?e + 1 + int k * (CHUNK + 1), min (?e + 1 + int k * (CHUNK + 1) + CHUNK) to)) [0..<m]"
  proof (cases "start + CHUNK < to")
    case True
    then have e: "?e = start + CHUNK" by simp
    have "map (\<lambda>k. (start + int k * (CHUNK + 1), min (start + int k * (CHUNK + 1) + CHUNK) to)) [0..<Suc m]
      = (start, ?e) # map (\<lambda>k. (start + int (Suc k) * (CHUNK + 1), min (start + int (Suc k) * (CHUNK + 1) + CHUNK) to)) [0..<m]"
      by (simp add: upt_conv_Cons map_Suc_upt[symmetric] del: upt_Suc)
    also have "map (\<lambda>k. (start + int (Suc k) * (CHUNK + 1), min (start + int (Suc k) * (CHUNK + 1) + CHUNK) to)) [0..<m]
       = map (\<lambda>k. (?e + 1 + int k * (CHUNK + 1), min (?e + 1 + int k * (CHUNK + 1) + CHUNK) to)) [0..<m]"
      unfolding e by (simp add: algebra_simps)
    finally show ?thesis .
  next
    case False
    then have e: "?e = to" by simp
    with m have "m = 0" by (simp add: CHUNK_def)
    then show ?thesis by simp
  qed
  show ?case unfolding st ih l by simp
qed

lemma js_add_beyond:
  "js_add 9007199254740992 1 = 9007199254740992"
  "js_add 9007199254740992 CHUNK = 9007199254745992"
proof -
  have e: "ulp_exponent 9007199254740993 = 1" "ulp_exponent 9007199254745992 = 1"
    by (simp_all add: ulp_exponent.simps)
  show "js_add 9007199254740992 1 = 9007199254740992"
    by (simp add: js_add_def js_number_def Let_def e)
  show "js_add 9007199254740992 CHUNK = 9007199254745992"
    by (simp add: js_add_def js_number_def Let_def e CHUNK_def)
qed

lemma queryInChunks_never_returns:
  assumes "queryInChunks cb start to w = Some y"
  shows "\<not> (start = 9007199254740992 \<and> to = 9007199254740992)"
proof (rule queryInChunks.raw_induct[where P = "\<lambda>cb start to w y. \<not> (start = 9007199254740992 \<and> to = 9007199254740992)", OF _ assms])
  fix f :: "(int \<Rightarrow> int \<Rightarrow> world \<Rightarrow> (string + unit) \<times> world) \<Rightarrow> int \<Rightarrow> int \<Rightarrow> world \<Rightarrow> world option"
  fix cb start to w y
  assume ih: "\<And>cb start to w y. f cb start to w = Some y \<Longrightarrow> \<not> (start = 9007199254740992 \<and> to = 9007199254740992)"
  assume body: "(if start \<le> to
      then let end' = min (js_add start CHUNK) to
           in f cb (js_add end' 1) to (chunk_step cb start end' w)
      else Some w) = Some y"
  show "\<not> (start = 9007199254740992 \<and> to = 9007199254740992)"
  proof
    assume s: "start = 9007199254740992 \<and> to = 9007199254740992"
    with body obtain w2 where "f cb 9007199254740992 9007199254740992 w2 = Some y"
      by (simp add: Let_def js_add_beyond)
    from ih[OF this] show False by simp
  qed
qed

text \<open>
  C10 (amended). For block bounds in the range where the additions of the loop are exact
  (\<open>-2^53 \<le> from\<close> and \<open>to < 2^53\<close>) the scan returns; there every iteration
  moves \<open>start\<close> strictly forward; and when \<open>from > to\<close>, whatever the bounds, the
  loop returns at once, leaving the world as it was: no sub-query is issued.
\<close>

theorem queryInChunks_terminates:
  "(- (2 ^ 53) \<le> from \<and> to < 2 ^ 53 \<longrightarrow> (\<exists>w'. queryInChunks callback from to w = Some w')) \<and>
   (- (2 ^ 53) \<le> start \<and> start \<le> to \<and> to < 2 ^ 53 \<longrightarrow> start < js_add (min (js_add start CHUNK) to) 1) \<and>
   (to < from \<longrightarrow> queryInChunks callback from to w = Some w)"
proof (intro conjI impI)
  assume a: "- (2 ^ 53) \<le> from \<and> to < 2 ^ 53"
  show "\<exists>w'. queryInChunks callback from to w = Some w'"
  proof (cases "from \<le> to + 1")
    case True
    with a queryInChunks_closed_form[of "from" to _ callback w] show ?thesis by simp
  next
    case False
    then show ?thesis by (simp add: queryInChunks_done)
  qed
next
  assume a: "- (2 ^ 53) \<le> start \<and> start \<le> to \<and> to < 2 ^ 53"
  then have "js_add (min (js_add start CHUNK) to) 1 = min (start + CHUNK) to + 1"
    by (simp add: safe_bounds)
  with a show "start < js_add (min (js_add start CHUNK) to) 1"
    by (simp add: CHUNK_def min_def)
next
  assume "to < from"
  then show "queryInChunks callback from to w = Some w" by (rule queryInChunks_done)
qed

theorem queryInChunks_terminates_witness:
  "- (2 ^ 53) \<le> (0::int) \<and> (10001::int) < 2 ^ 53 \<and> (0::int) \<le> 10001 \<and>
   queryInChunks (active_callback sample_env failing_chain) 0 10001 bound_world \<noteq> None \<and>
   (0::int) < js_add (min (js_add 0 CHUNK) 10001) 1 \<and>
   (3::int) < 5 \<and>
   queryInChunks (active_callback sample_env failing_chain) 5 3 bound_world = Some bound_world"
  using queryInChunks_terminates[of 0 10001 "active_callback sample_env failing_chain" bound_world 0]
    queryInChunks_terminates[of 5 3 "active_callback sample_env failing_chain" bound_world 0]
  by simp

text \<open>
  At \<open>from = to = 2^53 = 9007199254740992\<close> the increment \<open>end + 1\<close> is rounded back
  to \<open>2^53\<close>: the start bound does not advance and the scan never returns.
\<close>

theorem queryInChunks_stuck:
  "js_add (min (js_add 9007199254740992 CHUNK) 9007199254740992) 1 = 9007199254740992 \<and>
   queryInChunks (active_callback sample_env failing_chain) 9007199254740992 9007199254740992 bound_world = None"
proof -
  have "queryInChunks (active_callback sample_env failing_chain) 9007199254740992 9007199254740992 bound_world = None"
  proof (cases "queryInChunks (active_callback sample_env failing_chain) 9007199254740992 9007199254740992 bound_world")
    case None then show ?thesis .
  next
    case (Some y)
    from queryInChunks_never_returns[OF this] show ?thesis by simp
  qed
  then show ?thesis by (simp add: js_add_beyond)
qed

subsection \<open>What a scan announces, sends and posts\<close>



lemma chunk_scans_say: "chunk_scans (say l w) = chunk_scans w @ scan_of l"
  by (simp add: chunk_scans_def say_def)

lemma safeQueryFilter_frame:
  "posted (snd (safeQueryFilter ce k from to retry w)) = posted w \<and>
   chunk_scans (snd (safeQueryFilter ce k from to retry w)) = chunk_scans w \<and>
   totalActive (snd (safeQueryFilter ce k from to retry w)) = totalActive w \<and>
   totalFulfilled (snd (safeQueryFilter ce k from to retry w)) = totalFulfilled w \<and>
   totalCancelled (snd (safeQueryFilter ce k from to retry w)) = totalCancelled w \<and>
   seaportContract (snd (safeQueryFilter ce k from to retry w)) = seaportContract w"
proof (induction ce k "from" to retry w rule: safeQueryFilter.induct)
  case (1 ce k "from" to retry w)
  obtain r w1 where c: "contract_queryFilter ce k from to w = (r, w1)"
    by (cases "contract_queryFilter ce k from to w")
  then have f: "posted w1 = posted w" "chunk_scans w1 = chunk_scans w"
    "totalActive w1 = totalActive w" "totalFulfilled w1 = totalFulfilled w"
    "totalCancelled w1 = totalCancelled w" "seaportContract w1 = seaportContract w"
    by (auto simp: contract_queryFilter_def chunk_scans_def split: option.splits)
  show ?case
  proof (cases r)
    case (Inr logs)
    with c f show ?thesis by (subst (1 2 3 4 5 6) safeQueryFilter.simps) simp
  next
    case (Inl e)
    show ?thesis
    proof (cases "retry < 3")
      case True
      let ?w2 = "(say (RetryWarn (retry + 1) e) w1)\<lparr>sleeps := sleeps w1 @ [2000 * (retry + 1)]\<rparr>"
      have u: "safeQueryFilter ce k from to retry w = safeQueryFilter ce k from to (retry + 1) ?w2"
        using c Inl True by (subst safeQueryFilter.simps) simp
      have g: "posted ?w2 = posted w" "chunk_scans ?w2 = chunk_scans w"
        "totalActive ?w2 = totalActive w" "totalFulfilled ?w2 = totalFulfilled w"
        "totalCancelled ?w2 = totalCancelled w" "seaportContract ?w2 = seaportContract w"
        using f by (simp_all add: say_def chunk_scans_def)
      from "1.IH"[OF c[symmetric] Inl True] show ?thesis
        unfolding u g by simp
    next
      case False
      with c f Inl show ?thesis by (subst (1 2 3 4 5 6) safeQueryFilter.simps) simp
    qed
  qed
qed

lemma safeQueryFilter_queries:
  "seaportContract w = Some rpc \<Longrightarrow>
   \<exists>a. requests (snd (safeQueryFilter ce k from to retry w)) = requests w + Suc a \<and>
       queries (snd (safeQueryFilter ce k from to retry w)) = queries w @ replicate (Suc a) (k, from, to)"
proof (induction ce k "from" to retry w rule: safeQueryFilter.induct)
  case (1 ce k "from" to retry w)
  let ?w1 = "w\<lparr>requests := requests w + 1, queries := queries w @ [(k, from, to)]\<rparr>"
  show ?case
  proof (cases "queryFilter ce (requests w) rpc k from to")
    case (Inr logs)
    then have "safeQueryFilter ce k from to retry w = (Inr logs, ?w1)"
      using "1.prems" by (subst safeQueryFilter.simps) (simp add: contract_queryFilter_def)
    then show ?thesis by (intro exI[of _ 0]) simp
  next
    case (Inl e)
    have cq: "contract_queryFilter ce k from to w = (Inl e, ?w1)"
      using Inl "1.prems" by (simp add: contract_queryFilter_def)
    show ?thesis
    proof (cases "retry < 3")
      case False
      with cq have "safeQueryFilter ce k from to retry w = (Inl e, ?w1)"
        by (subst safeQueryFilter.simps) simp
      then show ?thesis by (intro exI[of _ 0]) simp
    next
      case True
      let ?w2 = "(say (RetryWarn (retry + 1) e) ?w1)\<lparr>sleeps := sleeps ?w1 @ [2000 * (retry + 1)]\<rparr>"
      have unf: "safeQueryFilter ce k from to retry w = safeQueryFilter ce k from to (retry + 1) ?w2"
        using True cq by (subst safeQueryFilter.simps) simp
      have "seaportContract ?w2 = Some rpc"
        using "1.prems" by (simp add: say_def)
      from "1.IH"[OF cq[symmetric] refl True this]
      obtain a where a: "requests (snd (safeQueryFilter ce k from to (retry + 1) ?w2)) = requests ?w2 + Suc a"
        "queries (snd (safeQueryFilter ce k from to (retry + 1) ?w2)) = queries ?w2 @ replicate (Suc a) (k, from, to)"
        by blast
      have r2: "requests ?w2 = requests w + 1" "queries ?w2 = queries w @ [(k, from, to)]"
        by (simp_all add: say_def)
      have "requests (snd (safeQueryFilter ce k from to retry w)) = requests w + Suc (Suc a)"
        using a(1) unfolding unf r2 by simp
      moreover have "queries (snd (safeQueryFilter ce k from to retry w)) =
          queries w @ replicate (Suc (Suc a)) (k, from, to)"
        using a(2) unfolding unf r2 by simp
      ultimately show ?thesis by blast
    qed
  qed
qed

lemma handle_event_frame:
  assumes "counts_only count"
  shows "posted (handle_event ce mk count w ev) = posted w @ [mk ev]"
    and "chunk_scans (handle_event ce mk count w ev) = chunk_scans w"
    and "requests (handle_event ce mk count w ev) = requests w"
    and "queries (handle_event ce mk count w ev) = queries w"
    and "seaportContract (handle_event ce mk count w ev) = seaportContract w"
  using assms
  by (auto simp: counts_only_def handle_event_def postOrderEvent_def Let_def say_def chunk_scans_def
      split: post_result.splits)

lemma handle_events_frame:
  assumes "counts_only count"
  shows "posted (foldl (handle_event ce mk count) w evs) = posted w @ map mk evs \<and>
         chunk_scans (foldl (handle_event ce mk count) w evs) = chunk_scans w \<and>
         requests (foldl (handle_event ce mk count) w evs) = requests w \<and>
         queries (foldl (handle_event ce mk count) w evs) = queries w \<and>
         seaportContract (foldl (handle_event ce mk count) w evs) = seaportContract w"
  by (induction evs arbitrary: w) (simp_all add: handle_event_frame[OF assms])

text \<open>One iteration of the scan with the callback of a pass.\<close>

lemma chunk_step_effect:
  assumes co: "counts_only count" and b: "seaportContract w = Some rpc"
  shows "\<exists>a evs. 1 \<le> a \<and> a \<le> 4 \<and>
      requests (chunk_step (pass_callback ce k mk count) s e w) = requests w + a \<and>
      queries (chunk_step (pass_callback ce k mk count) s e w) = queries w @ replicate a (k, s, e) \<and>
      posted (chunk_step (pass_callback ce k mk count) s e w) = posted w @ map mk evs \<and>
      (evs = [] \<or> (\<exists>j. queryFilter ce j rpc k s e = Inr evs)) \<and>
      (\<not> isl (queryFilter ce (requests w) rpc k s e) \<longrightarrow>
         a = 1 \<and> evs = projr (queryFilter ce (requests w) rpc k s e)) \<and>
      ((\<forall>j<4. isl (queryFilter ce (requests w + j) rpc k s e)) \<longrightarrow> a = 4 \<and> evs = [])"
    and "seaportContract (chunk_step (pass_callback ce k mk count) s e w) = Some rpc"
    and "chunk_scans (chunk_step (pass_callback ce k mk count) s e w) = chunk_scans w @ [(s, e)]"
proof -
  let ?w1 = "say (ChunkScan s e) w"
  let ?q = "\<lambda>j. queryFilter ce j rpc k s e"
  obtain r w2 where q: "safeQueryFilter ce k s e 0 ?w1 = (r, w2)"
    by (cases "safeQueryFilter ce k s e 0 ?w1")
  have b1: "seaportContract ?w1 = Some rpc" and r1: "requests ?w1 = requests w"
    and q1: "queries ?w1 = queries w"
    using b by (simp_all add: say_def)
  from safeQueryFilter_frame[of ce k s e 0 ?w1] q
  have f: "posted w2 = posted w" "chunk_scans w2 = chunk_scans w @ [(s, e)]"
    "seaportContract w2 = Some rpc"
    using b by (simp_all add: chunk_scans_say) (simp_all add: say_def)
  from safeQueryFilter_trace[OF b1, of 0 ce k s e] q r1
  obtain n where n: "n \<le> 3" "\<forall>j<n. isl (?q (requests w + j))"
    "r = ?q (requests w + n)" "isl (?q (requests w + n)) \<longrightarrow> n = 3"
    "requests w2 = requests w + n + 1"
    by auto
  from safeQueryFilter_queries[OF b1, of ce k s e 0] q r1 q1
  obtain a where a: "requests w2 = requests w + Suc a" "queries w2 = queries w @ replicate (Suc a) (k, s, e)"
    by auto
  from a(1) n(5) have an: "a = n" by simp
  define evs where "evs = (case r of Inl err \<Rightarrow> [] | Inr logs \<Rightarrow> logs)"
  let ?w' = "chunk_step (pass_callback ce k mk count) s e w"
  have w': "requests ?w' = requests w2 \<and> queries ?w' = queries w2 \<and> posted ?w' = posted w2 @ map mk evs \<and>
      seaportContract ?w' = seaportContract w2 \<and> chunk_scans ?w' = chunk_scans w2"
    using q handle_events_frame[OF co, of ce mk w2]
    by (cases r) (simp_all add: chunk_step_def pass_callback_def evs_def chunk_scans_say, simp add: say_def)
  show "seaportContract ?w' = Some rpc" using w' f by simp
  show "chunk_scans ?w' = chunk_scans w @ [(s, e)]" using w' f by simp
  have e1: "evs = [] \<or> (\<exists>j. ?q j = Inr evs)"
  proof (cases r)
    case (Inl err)
    then show ?thesis by (simp add: evs_def)
  next
    case (Inr logs)
    then have "evs = logs" by (simp add: evs_def)
    with Inr n(3) have "?q (requests w + n) = Inr evs" by simp
    then show ?thesis by blast
  qed
  have e2: "\<not> isl (?q (requests w)) \<longrightarrow> Suc n = 1 \<and> evs = projr (?q (requests w))"
  proof
    assume ok: "\<not> isl (?q (requests w))"
    have "n = 0"
    proof (rule ccontr)
      assume "n \<noteq> 0"
      with n(2) have "isl (?q (requests w + 0))" by blast
      with ok show False by simp
    qed
    with n(3) have "r = ?q (requests w)" by simp
    with ok \<open>n = 0\<close> show "Suc n = 1 \<and> evs = projr (?q (requests w))"
      by (cases "?q (requests w)") (simp_all add: evs_def)
  qed
  have e3: "(\<forall>j<4. isl (?q (requests w + j))) \<longrightarrow> Suc n = 4 \<and> evs = []"
  proof
    assume all: "\<forall>j<4. isl (?q (requests w + j))"
    with n(1) have "isl (?q (requests w + n))" by simp
    with n(4) have "n = 3" by simp
    moreover from all n(3) \<open>n = 3\<close> have "isl r" by simp
    then have "evs = []" by (cases r) (simp_all add: evs_def)
    ultimately show "Suc n = 4 \<and> evs = []" by simp
  qed
  have "1 \<le> Suc n \<and> Suc n \<le> 4" using n(1) by simp
  moreover have "requests ?w' = requests w + Suc n" using w' n(5) by simp
  moreover have "queries ?w' = queries w @ replicate (Suc n) (k, s, e)" using w' a(2) an by simp
  moreover have "posted ?w' = posted w @ map mk evs" using w' f by simp
  ultimately show "\<exists>a evs. 1 \<le> a \<and> a \<le> 4 \<and>
      requests ?w' = requests w + a \<and>
      queries ?w' = queries w @ replicate a (k, s, e) \<and>
      posted ?w' = posted w @ map mk evs \<and>
      (evs = [] \<or> (\<exists>j. queryFilter ce j rpc k s e = Inr evs)) \<and>
      (\<not> isl (queryFilter ce (requests w) rpc k s e) \<longrightarrow>
         a = 1 \<and> evs = projr (queryFilter ce (requests w) rpc k s e)) \<and>
      ((\<forall>j<4. isl (queryFilter ce (requests w + j) rpc k s e)) \<longrightarrow> a = 4 \<and> evs = [])"
    using e1 e2 e3 by blast
qed


lemma scan_bound:
  assumes co: "counts_only count"
  shows "seaportContract w = Some rpc \<Longrightarrow>
    seaportContract (foldl (\<lambda>w (s, e). chunk_step (pass_callback ce k mk count) s e w) w rs) = Some rpc"
  by (induction rs arbitrary: w) (auto simp: chunk_step_effect(2)[OF co])












subsection \<open>A sub-range whose queries all fail\<close>





section \<open>Exit codes of the order sync\<close>

lemma queryInChunks_returns:
  assumes "- (2 ^ 53) \<le> from" and "to < 2 ^ 53"
  shows "\<exists>w'. queryInChunks cb from to w = Some w'"
proof (cases "from \<le> to + 1")
  case True
  from queryInChunks_closed_form[OF assms True refl, of cb w] show ?thesis by blast
next
  case False
  then show ?thesis by (simp add: queryInChunks_done)
qed

lemma initProvider_frame:
  "posted (initProvider ce rpcs w) = posted w"
  by (induction ce rpcs w rule: initProvider.induct) (auto simp: say_def split: sum.splits)

lemma initProvider_none:
  "provider w = None \<Longrightarrow>
   (provider (initProvider ce rpcs w) = None) =
   (\<forall>k<length (map the (filter (\<lambda>r. \<not> falsy r) rpcs)).
       isl (getBlockNumber ce (requests w + k) (map the (filter (\<lambda>r. \<not> falsy r) rpcs) ! k)))"
proof (induction ce rpcs w rule: initProvider.induct)
  case (1 ce w)
  then show ?case by simp
next
  case (2 ce rest w)
  then show ?case by (simp add: falsy_def)
next
  case (3 ce rpc rest w)
  show ?case
  proof (cases "rpc = []")
    case True
    with 3 show ?thesis by (simp add: falsy_def)
  next
    case False
    let ?us = "map the (filter (\<lambda>r. \<not> falsy r) rest)"
    have us: "map the (filter (\<lambda>r. \<not> falsy r) (Some rpc # rest)) = rpc # ?us"
      using False by (simp add: falsy_def)
    show ?thesis
    proof (cases "getBlockNumber ce (requests w) rpc")
      case (Inr h)
      with False have "provider (initProvider ce (Some rpc # rest) w) = Some rpc"
        by (simp add: say_def)
      moreover have "\<not> (\<forall>k<length (rpc # ?us). isl (getBlockNumber ce (requests w + k) ((rpc # ?us) ! k)))"
        using Inr by (auto intro: exI[of _ 0])
      ultimately show ?thesis unfolding us by simp
    next
      case (Inl e)
      let ?w = "say (RpcFailed rpc e) (w\<lparr>requests := requests w + 1\<rparr>)"
      have p: "provider ?w = None" "requests ?w = requests w + 1"
        using "3.prems" by (simp_all add: say_def)
      from "3.IH"(2)[OF False Inl p(1)]
      have ih: "(provider (initProvider ce rest ?w) = None) =
         (\<forall>k<length ?us. isl (getBlockNumber ce (requests w + 1 + k) (?us ! k)))"
        unfolding p(2) .
      have u: "initProvider ce (Some rpc # rest) w = initProvider ce rest ?w"
        using False Inl by simp
      have "(\<forall>k<length (rpc # ?us). isl (getBlockNumber ce (requests w + k) ((rpc # ?us) ! k)))
          = (\<forall>k<length ?us. isl (getBlockNumber ce (requests w + 1 + k) (?us ! k)))"
        using Inl by (simp add: All_less_Suc2)
      with ih show ?thesis unfolding u us by simp
    qed
  qed
qed

text \<open>
  The exit code of the order sync, for block numbers in the exact range: it is decided
  before the first scan, by the variables, the liveness probes and the read of the latest
  block; no answer to a log query and no answer of the backend changes it.
\<close>

lemma main_seaport_exit:
  assumes "- (2 ^ 53) \<le> FROM_BLOCK env"
    and "\<forall>i rpc h. getBlockNumber ce i rpc = Inr h \<longrightarrow> h < 2 ^ 53"
  shows "\<exists>out. main_seaport env ce = Some out \<and>
     (exit_code out \<noteq> 0 \<longrightarrow> posted (final out) = []) \<and>
     ((exit_code out \<noteq> 0) =
        (falsy (BACKEND_URL env) \<or> falsy (NFT_CONTRACT_ADDRESS env) \<or> falsy (SEAPORT_CONTRACT_ADDRESS env) \<or>
         (\<forall>k<length (map the (filter (\<lambda>r. \<not> falsy r) (RPC_LIST env))).
             isl (getBlockNumber ce k (map the (filter (\<lambda>r. \<not> falsy r) (RPC_LIST env)) ! k))) \<or>
         (\<exists>rpc. provider (initProvider ce (RPC_LIST env) (say SyncStarted world0)) = Some rpc \<and>
            isl (getBlockNumber ce (requests (initProvider ce (RPC_LIST env) (say SyncStarted world0))) rpc))))"
proof -
  let ?missing = "falsy (BACKEND_URL env) \<or> falsy (NFT_CONTRACT_ADDRESS env) \<or> falsy (SEAPORT_CONTRACT_ADDRESS env)"
  let ?w1 = "initProvider ce (RPC_LIST env) (say SyncStarted world0)"
  let ?us = "map the (filter (\<lambda>r. \<not> falsy r) (RPC_LIST env))"
  have s0: "provider (say SyncStarted world0) = None" "requests (say SyncStarted world0) = 0"
    "posted (say SyncStarted world0) = []"
    by (simp_all add: say_def world0_def)
  from initProvider_none[OF s0(1), of ce "RPC_LIST env"]
  have none: "(provider ?w1 = None) = (\<forall>k<length ?us. isl (getBlockNumber ce k (?us ! k)))"
    unfolding s0(2) by simp
  have p1: "posted ?w1 = []"
    by (simp add: initProvider_frame s0)
  show ?thesis
  proof (cases ?missing)
    case True
    then have "main_seaport env ce = Some \<lparr>exit_code = 1, final = say MissingEnv world0\<rparr>"
      by (simp add: main_seaport_def)
    with True show ?thesis by (auto simp: say_def world0_def)
  next
    case False
    show ?thesis
    proof (cases "provider ?w1")
      case None
      with False have "main_seaport env ce = Some \<lparr>exit_code = 1, final = say NoRpc ?w1\<rparr>"
        by (simp add: main_seaport_def Let_def)
      with None none p1 show ?thesis by (auto simp: say_def)
    next
      case (Some rpc)
      with none have some: "\<not> (\<forall>k<length ?us. isl (getBlockNumber ce k (?us ! k)))"
        by simp
      let ?w2 = "?w1\<lparr>seaportContract := Some rpc, requests := requests ?w1 + 1\<rparr>"
      show ?thesis
      proof (cases "getBlockNumber ce (requests ?w1) rpc")
        case (Inl e)
        with False Some have "main_seaport env ce = Some \<lparr>exit_code = 1, final = say (Fatal e) ?w2\<rparr>"
          by (simp add: main_seaport_def Let_def)
        with Inl Some p1 show ?thesis by (auto simp: say_def)
      next
        case (Inr latestBlock)
        with assms(2) have l: "latestBlock < 2 ^ 53" by blast
        from queryInChunks_returns[OF assms(1) l]
        obtain w3 where w3: "queryInChunks (active_callback env ce) (FROM_BLOCK env) latestBlock
            (say (BlockRange (FROM_BLOCK env) latestBlock) ?w2) = Some w3"
          by blast
        from queryInChunks_returns[OF assms(1) l]
        obtain w4 where w4: "queryInChunks (fulfilled_callback env ce) (FROM_BLOCK env) latestBlock w3 = Some w4"
          by blast
        from queryInChunks_returns[OF assms(1) l]
        obtain w5 where w5: "queryInChunks (cancelled_callback env ce) (FROM_BLOCK env) latestBlock w4 = Some w5"
          by blast
        from False Some Inr w3 w4 w5
        have "main_seaport env ce = Some \<lparr>exit_code = 0,
            final = say (SyncFinished (totalActive w5) (totalFulfilled w5) (totalCancelled w5)) w5\<rparr>"
          by (simp add: main_seaport_def Let_def)
        with False Some Inr some show ?thesis by auto
      qed
    qed
  qed
qed

section \<open>The ownership sync\<close>

lemma run_batch_done: "run_batch ne env arrival [] st = st"
  by (subst run_batch.simps) simp

lemma run_batch_step:
  "run_batch ne env arrival (c # pending) st =
     (case resume_at ne env (arrival (resumed st) mod length (c # pending)) (c # pending) st of
        (pending', st') \<Rightarrow> run_batch ne env arrival pending' st')"
  by (subst run_batch.simps) simp

lemma batches_done: "\<not> i < n \<Longrightarrow> batches ne env arrival n i st = st"
  by (subst batches.simps) simp

lemma batches_step:
  "i < n \<Longrightarrow> batches ne env arrival n i st =
     (case start_batch ne env (filter (\<lambda>tid. tid < n) (map (\<lambda>j. i + j) [0..<BATCH_SIZE])) st of
        (pending, st') \<Rightarrow> batches ne env arrival n (i + BATCH_SIZE) (run_batch ne env arrival pending st'))"
  by (subst batches.simps) simp

lemma first_batch_of_two:
  "filter (\<lambda>tid. tid < 2) [0..<20] = [0, Suc 0]"
  by (simp add: upt_rec)

lemma RPC_LIST_sample:
  "RPC_LIST sample_env = [Some ''https://primary.example'', Some ''https://rpc.apechain.com/http'',
     Some ''https://apechain.drpc.org'', Some ''https://33139.rpc.thirdweb.com'']"
  by (simp add: RPC_LIST_def sample_env_def)

lemma nft_load_sample:
  "nft_load sample_env = Inr \<lparr>providerIndex = 1, bound_rpc = Some ''https://primary.example'',
     calls = [], upserts = [], nft_console = [], resumed = 0\<rparr>"
  by (simp add: nft_load_def getProvider_def RPC_LIST_sample nft_state0_def)
     (simp add: sample_env_def falsy_def)

lemma only_drpc_fields:
  "ownerOf only_drpc rpc t =
     (if rpc = Some ''https://apechain.drpc.org'' then Inr ''0xOwnerAB'' else Inl ''unreachable'')"
  "tokenURI only_drpc rpc t =
     (if rpc = Some ''https://apechain.drpc.org'' then Inr ''https://meta.example/t'' else Inl ''unreachable'')"
  "totalSupply only_drpc rpc = Inr 2"
  "fetch_json only_drpc url = Inr (Some ''Ape'')"
  by (simp_all add: only_drpc_def)

lemma only_drpc_in_order:
  "main_nft sample_env only_drpc in_order =
     \<lparr>nft_exit_code = 0,
      nft_final = \<lparr>providerIndex = 9, bound_rpc = Some ''https://primary.example'',
         calls = [TotalSupplyCall (Some ''https://primary.example''),
            OwnerOfCall (Some ''https://primary.example'') 0,
            OwnerOfCall (Some ''https://primary.example'') 1,
            OwnerOfCall (Some ''https://rpc.apechain.com/http'') 0,
            OwnerOfCall (Some ''https://apechain.drpc.org'') 1,
            OwnerOfCall (Some ''https://33139.rpc.thirdweb.com'') 0,
            TokenURICall (Some ''https://33139.rpc.thirdweb.com'') 1,
            OwnerOfCall (Some ''https://primary.example'') 0,
            OwnerOfCall (Some ''https://rpc.apechain.com/http'') 1,
            OwnerOfCall (Some ''https://33139.rpc.thirdweb.com'') 1],
         upserts = [],
         nft_console = [TotalNFTs 2, RpcWarn 1 0 ''unreachable'',
            RpcWarn 1 1 ''unreachable'', RpcWarn 2 0 ''unreachable'',
            RpcWarn 3 0 ''unreachable'', RpcWarn 2 1 ''unreachable'',
            RpcWarn 4 0 ''unreachable'',
            TokenError 0 ''All RPC endpoints failed'',
            RpcWarn 3 1 ''unreachable'', RpcWarn 4 1 ''unreachable'',
            TokenError 1 ''All RPC endpoints failed'', Completed],
         resumed = 9\<rparr>\<rparr>"
proof -
  have b: "batches only_drpc sample_env in_order 2 0 st =
      run_batch only_drpc sample_env in_order
        (fst (start_batch only_drpc sample_env [0, Suc 0] st))
        (snd (start_batch only_drpc sample_env [0, Suc 0] st))" for st
    by (simp add: batches_step first_batch_of_two batches_done BATCH_SIZE_def split: prod.splits)
  show ?thesis
    unfolding main_nft_def nft_load_sample
    by (simp add: contract_totalSupply_def b warn_def start_batch_def processNFT_def
        rpc_fallback_def contract_ownerOf_def contract_tokenURI_def waiting_def RPC_LIST_sample
        run_batch_step run_batch_done resume_at_def rebind_def getProvider_def in_order_def
        only_drpc_fields)
qed

lemma only_drpc_latest_first:
  "main_nft sample_env only_drpc latest_first =
     \<lparr>nft_exit_code = 0,
      nft_final = \<lparr>providerIndex = 7, bound_rpc = Some ''https://apechain.drpc.org'',
         calls = [TotalSupplyCall (Some ''https://primary.example''),
            OwnerOfCall (Some ''https://primary.example'') 0,
            OwnerOfCall (Some ''https://primary.example'') 1,
            OwnerOfCall (Some ''https://rpc.apechain.com/http'') 1,
            OwnerOfCall (Some ''https://apechain.drpc.org'') 1,
            TokenURICall (Some ''https://apechain.drpc.org'') 1,
            OwnerOfCall (Some ''https://33139.rpc.thirdweb.com'') 0,
            OwnerOfCall (Some ''https://primary.example'') 0,
            OwnerOfCall (Some ''https://rpc.apechain.com/http'') 0],
         upserts = [\<lparr>token_id = ''1'', nft_contract = Some ''0xNFT'',
               owner_address = ''0xownerab'', name = Some ''Ape''\<rparr>],
         nft_console = [TotalNFTs 2, RpcWarn 1 1 ''unreachable'',
            RpcWarn 2 1 ''unreachable'',
            Saved 1 ''0xOwnerAB'' (Some ''Ape''),
            RpcWarn 1 0 ''unreachable'', RpcWarn 2 0 ''unreachable'',
            RpcWarn 3 0 ''unreachable'', RpcWarn 4 0 ''unreachable'',
            TokenError 0 ''All RPC endpoints failed'', Completed],
         resumed = 10\<rparr>\<rparr>"
proof -
  have b: "batches only_drpc sample_env latest_first 2 0 st =
      run_batch only_drpc sample_env latest_first
        (fst (start_batch only_drpc sample_env [0, Suc 0] st))
        (snd (start_batch only_drpc sample_env [0, Suc 0] st))" for st
    by (simp add: batches_step first_batch_of_two batches_done BATCH_SIZE_def split: prod.splits)
  have t: "toString (Suc 0) = ''1''"
    by (simp add: toString_digit digit_char_def)
  have l: "toLowerCase ''0xOwnerAB'' = ''0xownerab''"
    by (simp add: toLowerCase_def lower_char_def)
  have a: "NFT_CONTRACT_ADDRESS sample_env = Some ''0xNFT''"
    by (simp add: sample_env_def)
  show ?thesis
    unfolding main_nft_def nft_load_sample
    by (simp add: contract_totalSupply_def b warn_def start_batch_def processNFT_def
        rpc_fallback_def contract_ownerOf_def contract_tokenURI_def waiting_def RPC_LIST_sample
        run_batch_step run_batch_done resume_at_def rebind_def getProvider_def latest_first_def
        only_drpc_fields tokenURI_HTTP_def or_null_def falsy_def t l a)
qed

lemma three_tokens_fields:
  "ownerOf three_tokens rpc t = (if t = 1 then Inl ''call revert'' else Inr ''0xOwnerAB'')"
  "tokenURI three_tokens rpc t = (if t = 0 then Inr ''ipfs://meta/0'' else Inr ''https://meta.example/2'')"
  "totalSupply three_tokens rpc = Inr 3"
  "fetch_json three_tokens url =
     (if url = ''https://ipfs.io/ipfs/meta/0'' then Inr (Some ''Ape'') else Inl ''timeout'')"
  by (simp_all add: three_tokens_def)

text \<open>
  Where the endpoints agree, the run isolates the failure of a token: token 1, which no endpoint
  can read, is given up after four attempts and gets no record; tokens 0 and 2 get one
  record each, token 2 with no name since its metadata is not served. The records reach
  the store in the order in which the calls of \<open>processNFT\<close> get there.
\<close>

lemma three_tokens_in_order:
  "nft_exit_code (main_nft sample_env three_tokens in_order) = 0 \<and>
   upserts (nft_final (main_nft sample_env three_tokens in_order)) =
     [\<lparr>token_id = ''0'', nft_contract = Some ''0xNFT'', owner_address = ''0xownerab'', name = Some ''Ape''\<rparr>,
      \<lparr>token_id = ''2'', nft_contract = Some ''0xNFT'', owner_address = ''0xownerab'', name = None\<rparr>] \<and>
   endpoints_tried 1 (nft_final (main_nft sample_env three_tokens in_order)) = RPC_LIST sample_env"
proof -
  have f: "filter (\<lambda>tid. tid < 3) [0..<20] = [0, Suc 0, 2]"
    by (simp add: upt_rec)
  have b: "batches three_tokens sample_env in_order 3 0 st =
      run_batch three_tokens sample_env in_order
        (fst (start_batch three_tokens sample_env [0, Suc 0, 2] st))
        (snd (start_batch three_tokens sample_env [0, Suc 0, 2] st))" for st
    by (simp add: batches_step f batches_done BATCH_SIZE_def split: prod.splits)
  have t: "toString 0 = ''0''" "toString 2 = ''2''"
    by (simp_all add: toString_digit digit_char_def)
  have l: "toLowerCase ''0xOwnerAB'' = ''0xownerab''"
    by (simp add: toLowerCase_def lower_char_def)
  have a: "NFT_CONTRACT_ADDRESS sample_env = Some ''0xNFT''"
    by (simp add: sample_env_def)
  show ?thesis
    unfolding main_nft_def nft_load_sample
    by (simp add: contract_totalSupply_def b warn_def start_batch_def processNFT_def
        rpc_fallback_def contract_ownerOf_def contract_tokenURI_def waiting_def RPC_LIST_sample
        run_batch_step run_batch_done resume_at_def rebind_def getProvider_def in_order_def
        three_tokens_fields tokenURI_HTTP_def or_null_def falsy_def t l a endpoints_tried_def)
qed

lemma sample_env_fields:
  "APECHAIN_RPC sample_env = Some ''https://primary.example''"
  "NFT_CONTRACT_ADDRESS sample_env = Some ''0xNFT''"
  "SUPABASE_URL sample_env = Some ''https://store.example''"
  "SUPABASE_SERVICE_ROLE_KEY sample_env = Some ''service-role-key''"
  by (simp_all add: sample_env_def)

text \<open>
  C1. The claim asks for exactly one record for every token below the supply, a token
  being left out only when its reads fail on every endpoint. The code does not deliver
  this when the reads of a batch fail on some endpoints: the calls of a batch run
  interleaved and share \<open>providerIndex\<close> and \<open>nftContract\<close>, so the endpoints one call
  rotates past are lost to its siblings. With two tokens that \<open>apechain.drpc.org\<close>, the
  third endpoint of the list, can read and the other three cannot, and the answers
  arriving in the order of the requests, the run exits with code 0 having handed no record
  to the store; it reports \<open>All RPC endpoints failed\<close> for both tokens, although no read
  for token 0 was ever sent to the endpoint that answers.
\<close>

theorem ownership_sync_loses_readable_tokens:
  "RPC_LIST sample_env ! 2 = Some ''https://apechain.drpc.org'' \<and>
   totalSupply only_drpc (APECHAIN_RPC sample_env) = Inr 2 \<and>
   ownerOf only_drpc (Some ''https://apechain.drpc.org'') 0 = Inr ''0xOwnerAB'' \<and>
   tokenURI only_drpc (Some ''https://apechain.drpc.org'') 0 = Inr ''https://meta.example/t'' \<and>
   ownerOf only_drpc (Some ''https://apechain.drpc.org'') 1 = Inr ''0xOwnerAB'' \<and>
   tokenURI only_drpc (Some ''https://apechain.drpc.org'') 1 = Inr ''https://meta.example/t'' \<and>
   nft_exit_code (main_nft sample_env only_drpc in_order) = 0 \<and>
   upserts (nft_final (main_nft sample_env only_drpc in_order)) = [] \<and>
   nft_console (nft_final (main_nft sample_env only_drpc in_order)) =
     [TotalNFTs 2, RpcWarn 1 0 ''unreachable'', RpcWarn 1 1 ''unreachable'',
      RpcWarn 2 0 ''unreachable'', RpcWarn 3 0 ''unreachable'', RpcWarn 2 1 ''unreachable'',
      RpcWarn 4 0 ''unreachable'', TokenError 0 ''All RPC endpoints failed'',
      RpcWarn 3 1 ''unreachable'', RpcWarn 4 1 ''unreachable'',
      TokenError 1 ''All RPC endpoints failed'', Completed] \<and>
   OwnerOfCall (Some ''https://apechain.drpc.org'') 0
     \<notin> set (calls (nft_final (main_nft sample_env only_drpc in_order)))"
  by (simp add: only_drpc_in_order only_drpc_fields RPC_LIST_sample sample_env_fields)

text \<open>
  C9. \<open>getProvider\<close> itself is round-robin over the four entries with an index that only
  advances, but the index belongs to the process and the claim speaks of one logical
  operation: the rotations of the calls of a batch interleave, so the endpoints one token
  is tried on are not the list taken once around. In the run above the reads of token 0
  go to the first, second, fourth and again the first endpoint: after its four attempts
  it has tried \<open>primary.example\<close> twice and \<open>apechain.drpc.org\<close> never. The reads of token
  1 go to each endpoint once, but the \<open>tokenURI\<close> read that follows its successful
  \<open>ownerOf\<close> on \<open>apechain.drpc.org\<close> is sent to \<open>33139.rpc.thirdweb.com\<close>, where the
  other call has moved the contract in between.
\<close>

theorem rotation_shared_by_batch_siblings:
  "RPC_LIST sample_env =
     [Some ''https://primary.example'', Some ''https://rpc.apechain.com/http'',
      Some ''https://apechain.drpc.org'', Some ''https://33139.rpc.thirdweb.com''] \<and>
   endpoints_tried 0 (nft_final (main_nft sample_env only_drpc in_order)) =
     [Some ''https://primary.example'', Some ''https://rpc.apechain.com/http'',
      Some ''https://33139.rpc.thirdweb.com'', Some ''https://primary.example''] \<and>
   endpoints_tried 1 (nft_final (main_nft sample_env only_drpc in_order)) =
     [Some ''https://primary.example'', Some ''https://apechain.drpc.org'',
      Some ''https://rpc.apechain.com/http'', Some ''https://33139.rpc.thirdweb.com''] \<and>
   calls (nft_final (main_nft sample_env only_drpc in_order)) =
     [TotalSupplyCall (Some ''https://primary.example''),
      OwnerOfCall (Some ''https://primary.example'') 0,
      OwnerOfCall (Some ''https://primary.example'') 1,
      OwnerOfCall (Some ''https://rpc.apechain.com/http'') 0,
      OwnerOfCall (Some ''https://apechain.drpc.org'') 1,
      OwnerOfCall (Some ''https://33139.rpc.thirdweb.com'') 0,
      TokenURICall (Some ''https://33139.rpc.thirdweb.com'') 1,
      OwnerOfCall (Some ''https://primary.example'') 0,
      OwnerOfCall (Some ''https://rpc.apechain.com/http'') 1,
      OwnerOfCall (Some ''https://33139.rpc.thirdweb.com'') 1] \<and>
   providerIndex (nft_final (main_nft sample_env only_drpc in_order)) = 9"
  by (simp add: only_drpc_in_order RPC_LIST_sample endpoints_tried_def)

text \<open>
  C6. The records of a run depend on the order in which the answers arrive, not on the
  chain responses alone. Against the same chain as above, the run in which the answers
  arrive in the order of the requests writes no record, and the run in which the answer to
  the latest request arrives first writes the record of token 1: run after the first, it
  adds a row to the store instead of overwriting rows with the same values.
\<close>

theorem ownership_sync_depends_on_arrival:
  "upserts (nft_final (main_nft sample_env only_drpc in_order)) = [] \<and>
   upserts (nft_final (main_nft sample_env only_drpc latest_first)) =
     [\<lparr>token_id = ''1'', nft_contract = Some ''0xNFT'', owner_address = ''0xownerab'',
       name = Some ''Ape''\<rparr>] \<and>
   apply_upserts Map.empty (upserts (nft_final (main_nft sample_env only_drpc in_order))) ''1'' = None \<and>
   apply_upserts (apply_upserts Map.empty (upserts (nft_final (main_nft sample_env only_drpc in_order))))
       (upserts (nft_final (main_nft sample_env only_drpc latest_first))) ''1'' =
     Some \<lparr>token_id = ''1'', nft_contract = Some ''0xNFT'', owner_address = ''0xownerab'',
       name = Some ''Ape''\<rparr>"
  by (simp add: only_drpc_in_order only_drpc_latest_first apply_upserts_def upsert_def)

section \<open>Exit codes of the ownership sync\<close>

lemma nft_load_missing:
  "falsy (SUPABASE_URL env) \<or> falsy (SUPABASE_SERVICE_ROLE_KEY env) \<or> NFT_CONTRACT_ADDRESS env = None
   \<Longrightarrow> isl (nft_load env) \<and> calls (projl (nft_load env)) = [] \<and> upserts (projl (nft_load env)) = []"
  by (auto simp: nft_load_def getProvider_def nft_state0_def warn_def split: option.splits)

lemma nft_load_complete:
  "\<not> (falsy (SUPABASE_URL env) \<or> falsy (SUPABASE_SERVICE_ROLE_KEY env) \<or> NFT_CONTRACT_ADDRESS env = None)
   \<Longrightarrow> nft_load env = Inr \<lparr>providerIndex = 1, bound_rpc = APECHAIN_RPC env,
         calls = [], upserts = [], nft_console = [], resumed = 0\<rparr>"
  by (auto simp: nft_load_def getProvider_def nft_state0_def RPC_LIST_def split: option.splits)

text \<open>
  The exit code of the ownership sync: 1 when a required variable is missing or the supply
  cannot be read on the configured endpoint, 0 otherwise, whatever happens to the tokens.
\<close>

lemma main_nft_exit:
  "nft_exit_code (main_nft env ne arrival) =
     (if falsy (SUPABASE_URL env) \<or> falsy (SUPABASE_SERVICE_ROLE_KEY env) \<or> NFT_CONTRACT_ADDRESS env = None
         \<or> isl (totalSupply ne (APECHAIN_RPC env))
      then 1 else 0)"
proof (cases "falsy (SUPABASE_URL env) \<or> falsy (SUPABASE_SERVICE_ROLE_KEY env) \<or> NFT_CONTRACT_ADDRESS env = None")
  case True
  from nft_load_missing[OF this] obtain st where "nft_load env = Inl st"
    by (cases "nft_load env") simp_all
  with True show ?thesis by (auto simp: main_nft_def)
next
  case False
  from nft_load_complete[OF this] False show ?thesis
    by (cases "totalSupply ne (APECHAIN_RPC env)") (simp_all add: main_nft_def contract_totalSupply_def)
qed

lemma primary_down_run:
  "main_nft sample_env primary_down arrival =
     \<lparr>nft_exit_code = 1,
      nft_final = \<lparr>providerIndex = 1, bound_rpc = Some ''https://primary.example'',
         calls = [TotalSupplyCall (Some ''https://primary.example'')],
         upserts = [], nft_console = [FatalError ''unreachable''], resumed = 0\<rparr>\<rparr>"
  unfolding main_nft_def nft_load_sample
  by (simp add: contract_totalSupply_def primary_down_def warn_def)

text \<open>
  C5. The claim lets the process exit with a non-zero code only when required
  configuration is missing or no RPC endpoint can be reached. The ownership sync reads
  the supply on the configured endpoint alone: with every variable set, the configured
  endpoint down and the three public endpoints answering, it exits with code 1 after that
  single read, having tried no other endpoint and written nothing, where the reads of
  \<open>processNFT\<close> fall back over the whole list.
\<close>

theorem primary_down_exits_1:
  "\<not> (falsy (SUPABASE_URL sample_env) \<or> falsy (SUPABASE_SERVICE_ROLE_KEY sample_env)
       \<or> NFT_CONTRACT_ADDRESS sample_env = None) \<and>
   totalSupply primary_down (RPC_LIST sample_env ! 1) = Inr 3 \<and>
   totalSupply primary_down (RPC_LIST sample_env ! 2) = Inr 3 \<and>
   totalSupply primary_down (RPC_LIST sample_env ! 3) = Inr 3 \<and>
   nft_exit_code (main_nft sample_env primary_down in_order) = 1 \<and>
   calls (nft_final (main_nft sample_env primary_down in_order)) =
     [TotalSupplyCall (Some ''https://primary.example'')] \<and>
   upserts (nft_final (main_nft sample_env primary_down in_order)) = [] \<and>
   nft_console (nft_final (main_nft sample_env primary_down in_order)) = [FatalError ''unreachable'']"
proof -
  have "totalSupply primary_down rpc =
      (if rpc = Some ''https://primary.example'' then Inl ''unreachable'' else Inr 3)" for rpc
    by (simp add: primary_down_def)
  then show ?thesis
    by (simp add: primary_down_run RPC_LIST_sample sample_env_fields falsy_def)
qed

end
